theory Spec2Isabelle
  imports Complex_Main "HOL-Library.AList"
begin

section \<open>Transitional Markov Chain Monte Carlo: the weight kernel\<close>

text \<open>
  The source (\<^verbatim>\<open>modules/performUQ/common/tmcmc.py\<close>) computes with NumPy arrays of
  IEEE doubles. The embedding reads every finite double as the real number it stands for
  and every array as a list; an operation that the source cannot carry out (an empty
  reduction, a missing key, a failed factorisation) is an error value, as the exception
  it raises. The last value, \<open>Non_finite_values\<close>, is no exception of the source: it
  marks the place where the source goes on with entries that are not finite (NaN), which
  the embedding over the reals does not follow. Where a property turns on the rounding
  of the doubles (the warm-start selector), the arithmetic is followed a second time
  with every result rounded.
\<close>

datatype error =
    ValueError string
  | RuntimeError string
  | LinAlgError string
  | KeyError int
  | IndexError
  | ZeroDivisionError
  | Non_finite_values

text \<open>\<^verbatim>\<open>np.max\<close>: the largest entry; an empty array has none and raises.\<close>

definition np_max :: "real list \<Rightarrow> error + real" where
  "np_max xs =
     (if xs = [] then
        Inl (ValueError ''zero-size array to reduction operation maximum which has no identity'')
      else Inr (Max (set xs)))"

text \<open>
  \<^verbatim>\<open>_calculate_weights(beta_increment, log_likelihoods)\<close>:
  scale, subtract the maximum, exponentiate, normalise by the sum.
\<close>

definition calculate_weights :: "real \<Rightarrow> real list \<Rightarrow> error + real list" where
  "calculate_weights beta_increment log_likelihoods =
     (let log_weights = map (\<lambda>x. beta_increment * x) log_likelihoods in
      case np_max log_weights of
        Inl e \<Rightarrow> Inl e
      | Inr m \<Rightarrow>
          let normalized_log_weights = map (\<lambda>x. x - m) log_weights;
              normalized_weights = map exp normalized_log_weights
          in Inr (map (\<lambda>x. x / sum_list normalized_weights) normalized_weights))"

text \<open>
  Modelled from the spec: \<^verbatim>\<open>scipy.special.logsumexp\<close> is SciPy's, not in the
  repository. On a one-dimensional array it is the log-sum-exp primitive of the spec: the
  maximum is taken out before the exponentials are summed.
\<close>

definition logsumexp :: "real list \<Rightarrow> error + real" where
  "logsumexp a =
     (case np_max a of
        Inl e \<Rightarrow> Inl e
      | Inr a_max \<Rightarrow> Inr (ln (sum_list (map (\<lambda>x. exp (x - a_max)) a)) + a_max))"

text \<open>\<^verbatim>\<open>_calculate_log_evidence(beta_increment, log_likelihoods)\<close>.\<close>

definition calculate_log_evidence :: "real \<Rightarrow> real list \<Rightarrow> error + real" where
  "calculate_log_evidence beta_increment log_likelihoods =
     (case logsumexp (map (\<lambda>x. beta_increment * x) log_likelihoods) of
        Inl e \<Rightarrow> Inl e
      | Inr s \<Rightarrow> Inr (s - ln (real (length log_likelihoods))))"

text \<open>
  \<^verbatim>\<open>np.nanmean\<close> and \<^verbatim>\<open>np.nanstd\<close> (population standard deviation, \<^verbatim>\<open>ddof = 0\<close>) on
  an array of reals, where no entry is NaN.
\<close>

definition nanmean :: "real list \<Rightarrow> real" where
  "nanmean xs = sum_list xs / real (length xs)"

definition nanstd :: "real list \<Rightarrow> real" where
  "nanstd xs = sqrt (nanmean (map (\<lambda>x. (x - nanmean xs)\<^sup>2) xs))"

definition cov_weights :: "real list \<Rightarrow> real" where
  "cov_weights weights = nanstd weights / nanmean weights"

section \<open>The temperature stepper\<close>

text \<open>
  The closure \<^verbatim>\<open>cov_objective\<close> of \<^verbatim>\<open>_increment_beta\<close>, with the variables it
  captures as its first arguments.
\<close>

definition cov_objective :: "real \<Rightarrow> real list \<Rightarrow> real \<Rightarrow> error + real" where
  "cov_objective threshold_cov log_likelihoods beta_increment =
     (case calculate_weights beta_increment log_likelihoods of
        Inl e \<Rightarrow> Inl e
      | Inr weights \<Rightarrow> Inr (cov_weights weights - threshold_cov))"

text \<open>
  \<^verbatim>\<open>scipy.optimize.root_scalar(f, bracket=[a, b], method='bisect')\<close> is SciPy's and not
  part of the repository: the stepper takes it as a parameter. It is given the objective
  and the two ends of the bracket, and it returns the fields \<^verbatim>\<open>converged\<close> and
  \<^verbatim>\<open>root\<close> of its result, or the exception that it or the objective raised.
\<close>

type_synonym root_finder = "(real \<Rightarrow> error + real) \<Rightarrow> real \<Rightarrow> real \<Rightarrow> error + bool \<times> real"

text \<open>
  The fallback loop of \<^verbatim>\<open>_increment_beta\<close>:
  \<^verbatim>\<open>while cov_weights > threshold_cov: beta_increment = 0.99 * beta_increment\<close>,
  with the weights and their coefficient of variation recomputed at each increment.
  Nothing in the source bounds the number of rounds: not returning is \<open>None\<close>.
\<close>

partial_function (option) shrink_beta_increment ::
  "real \<Rightarrow> real list \<Rightarrow> real \<Rightarrow> (error + real) option" where
  "shrink_beta_increment threshold_cov log_likelihoods beta_increment =
     (case calculate_weights beta_increment log_likelihoods of
        Inl e \<Rightarrow> Some (Inl e)
      | Inr weights \<Rightarrow>
          if cov_weights weights > threshold_cov
          then shrink_beta_increment threshold_cov log_likelihoods (0.99 * beta_increment)
          else Some (Inr beta_increment))"

text \<open>
  \<^verbatim>\<open>_increment_beta(log_likelihoods, beta, threshold_cov=1)\<close>. \<^verbatim>\<open>np.sign\<close> is \<open>sgn\<close>.
\<close>

definition increment_beta ::
  "root_finder \<Rightarrow> real list \<Rightarrow> real \<Rightarrow> real \<Rightarrow> (error + real) option" where
  "increment_beta root_scalar log_likelihoods beta threshold_cov =
     (case cov_objective threshold_cov log_likelihoods 0 of
        Inl e \<Rightarrow> Some (Inl e)
      | Inr f0 \<Rightarrow>
     (case cov_objective threshold_cov log_likelihoods (1 - beta) of
        Inl e \<Rightarrow> Some (Inl e)
      | Inr f1 \<Rightarrow>
          if sgn f0 = sgn f1 then Some (Inr 1)
          else
            (case root_scalar (cov_objective threshold_cov log_likelihoods) 0 (1 - beta) of
               Inl e \<Rightarrow> Some (Inl e)
             | Inr (converged, result_root) \<Rightarrow>
                 if converged then Some (Inr (min (beta + result_root) 1))
                 else
                   (case shrink_beta_increment threshold_cov log_likelihoods (1 - beta) of
                      None \<Rightarrow> None
                    | Some (Inl e) \<Rightarrow> Some (Inl e)
                    | Some (Inr beta_increment) \<Rightarrow>
                        Some (Inr (min (beta + beta_increment) 1))))))"

text \<open>The default of the parameter \<^verbatim>\<open>threshold_cov\<close> of \<^verbatim>\<open>_increment_beta\<close>.\<close>

definition default_threshold_cov :: real where
  "default_threshold_cov = 1"

subsection \<open>A bisection solver\<close>

text \<open>
  Modelled from the spec: SciPy's bisection is not in the repository; the spec asks to
  ``solve \<^verbatim>\<open>f(\<Delta>\<beta>) = 0\<close> by bisection on the interval \<^verbatim>\<open>[0, 1 - \<beta>]\<close>''. This is the
  bisection of SciPy with its default tolerances and iteration bound
  (\<^verbatim>\<open>xtol = 2e-12\<close>, \<^verbatim>\<open>rtol = 4 * eps\<close>, \<^verbatim>\<open>maxiter = 100\<close>) over the reals: an end of the
  bracket that is a root is returned at once, the midpoint is returned as soon as it is a
  root or the half-width is below the tolerance, and after \<^verbatim>\<open>maxiter\<close> rounds the result
  is not converged. It instantiates the parameter \<open>root_scalar\<close> of the stepper.
\<close>

definition bisect_xtol :: real where
  "bisect_xtol = 2 / 10 ^ 12"

definition bisect_rtol :: real where
  "bisect_rtol = 4 / 2 ^ 52"

fun bisect_iter ::
  "nat \<Rightarrow> (real \<Rightarrow> error + real) \<Rightarrow> real \<Rightarrow> real \<Rightarrow> real \<Rightarrow> error + bool \<times> real" where
  "bisect_iter 0 f fa xa dm = Inr (False, xa)"
| "bisect_iter (Suc n) f fa xa dm =
     (let dm' = dm * (1 / 2); xm = xa + dm' in
      case f xm of
        Inl e \<Rightarrow> Inl e
      | Inr fm \<Rightarrow>
          let xa' = (if fm * fa \<ge> 0 then xm else xa) in
          if fm = 0 \<or> \<bar>dm'\<bar> < bisect_xtol + bisect_rtol * \<bar>xm\<bar> then Inr (True, xm)
          else bisect_iter n f fa xa' dm')"

definition bisect :: root_finder where
  "bisect f xa xb =
     (case f xa of
        Inl e \<Rightarrow> Inl e
      | Inr fa \<Rightarrow>
     (case f xb of
        Inl e \<Rightarrow> Inl e
      | Inr fb \<Rightarrow>
          if fa = 0 then Inr (True, xa)
          else if fb = 0 then Inr (True, xb)
          else if (fa < 0) = (fb < 0) then
            Inl (ValueError ''f(a) and f(b) must have different signs'')
          else bisect_iter 100 f fa xa (xb - xa)))"

text \<open>
  What the stepper needs of a root finder: when the objective never raises and has
  different signs at the two ends of the bracket, the finder returns, and a root it
  reports as converged lies in the bracket.
\<close>

definition bracketing_root_finder :: "root_finder \<Rightarrow> bool" where
  "bracketing_root_finder root_scalar =
     (\<forall>f a b fa fb.
        a \<le> b \<longrightarrow> (\<forall>x. \<exists>y. f x = Inr y) \<longrightarrow> f a = Inr fa \<longrightarrow> f b = Inr fb \<longrightarrow> sgn fa \<noteq> sgn fb \<longrightarrow>
        (\<exists>converged r. root_scalar f a b = Inr (converged, r) \<and> (converged \<longrightarrow> a \<le> r \<and> r \<le> b)))"

text \<open>The weights as a function of the increment, for the proofs: a softmax.\<close>

definition softmax :: "real list \<Rightarrow> real \<Rightarrow> real \<Rightarrow> real" where
  "softmax l b x = exp (b * x) / sum_list (map (\<lambda>y. exp (b * y)) l)"

section \<open>The proposal builder\<close>

type_synonym matrix = "real list list"

text \<open>
  A two-dimensional array of samples: its rows, and the number of columns \<^verbatim>\<open>shape[1]\<close>,
  which an array has also when it has no row. Every row has \<open>ncols\<close> entries.
\<close>

record array2d =
  ncols :: nat
  rows :: matrix

text \<open>
  The array that \<^verbatim>\<open>np.cov\<close> returns. For a single variable the result is squeezed to
  zero dimensions. Entries that are not finite (NaN, from a normalisation factor that is
  not positive) are \<open>None\<close>.
\<close>

datatype cov_array = Zero_dim "real option" | Two_dim "matrix option"

text \<open>
  Modelled from the spec: \<^verbatim>\<open>np.cov\<close> is NumPy's, not in the repository; the spec's
  \<open>Cov\<^sub>w\<close> is ``the weighted sample covariance treating w as per-row aweights (unbiased
  in the frequency-weight sense used by standard statistical libraries)''. This is the
  documented computation of \<^verbatim>\<open>np.cov(samples, rowvar=False, aweights=weights)\<close> with the
  default \<^verbatim>\<open>ddof = 1\<close>. The columns of \<open>samples\<close> are the variables and its rows the
  observations; the weighted mean is taken off each column; the normalisation factor is
  \<^verbatim>\<open>w_sum - sum(w * w) / w_sum\<close>; when it is not positive NumPy warns, sets it to zero
  and the division leaves NaN in every entry.
\<close>

definition np_cov :: "array2d \<Rightarrow> real list \<Rightarrow> error + cov_array" where
  "np_cov samples aweights =
     (let d = ncols samples; X = rows samples in
      if d = 0 then Inr (Two_dim (Some []))
      else if length aweights \<noteq> length X then
        Inl (RuntimeError ''incompatible numbers of samples and aweights'')
      else if \<exists>w \<in> set aweights. w < 0 then Inl (ValueError ''aweights cannot be negative'')
      else
        let w_sum = sum_list aweights in
        if w_sum = 0 then Inl ZeroDivisionError
        else
          let avg = map (\<lambda>j. sum_list (map2 (\<lambda>row w. w * row ! j) X aweights) / w_sum) [0..<d];
              fact = w_sum - sum_list (map (\<lambda>w. w * w) aweights) / w_sum;
              centered = map (\<lambda>row. map2 (-) row avg) X;
              c = map (\<lambda>j. map (\<lambda>k.
                    sum_list (map2 (\<lambda>row w. row ! j * (w * row ! k)) centered aweights)
                      * (1 / fact)) [0..<d]) [0..<d]
          in if fact \<le> 0 then Inr (if d = 1 then Zero_dim None else Two_dim None)
             else Inr (if d = 1 then Zero_dim (Some (c ! 0 ! 0)) else Two_dim (Some c)))"

text \<open>A scalar times the array.\<close>

fun scale_array :: "real \<Rightarrow> cov_array \<Rightarrow> cov_array" where
  "scale_array a (Zero_dim v) = Zero_dim (map_option (\<lambda>x. a * x) v)"
| "scale_array a (Two_dim m) = Two_dim (map_option (map (map (\<lambda>x. a * x))) m)"

text \<open>\<^verbatim>\<open>_get_scaled_proposal_covariance(samples, weights, scale_factor)\<close>.\<close>

definition get_scaled_proposal_covariance ::
  "array2d \<Rightarrow> real list \<Rightarrow> real \<Rightarrow> error + cov_array" where
  "get_scaled_proposal_covariance samples weights scale_factor =
     (case np_cov samples weights of
        Inl e \<Rightarrow> Inl e
      | Inr c \<Rightarrow> Inr (scale_array (scale_factor\<^sup>2) c))"

text \<open>
  Modelled from the spec: the factorisation is LAPACK's, behind \<^verbatim>\<open>np.linalg.cholesky\<close>,
  not in the repository; the spec asks for ``the lower-triangular Cholesky factor L with
  \<open>L L\<^sup>T = \<Sigma>\<close>'' and a failure on a matrix that is not positive definite. This is
  the Cholesky factorisation by elimination of the first column: the pivot is the
  first diagonal entry, it must be positive; the rest of the first column over the root
  of the pivot is the first column of the factor, and the factorisation goes on with
  the Schur complement. Only the lower triangle of the matrix is read, as LAPACK does.
\<close>

fun cholesky :: "matrix \<Rightarrow> matrix option" where
  "cholesky [] = Some []"
| "cholesky (r # rs) =
     (let a = hd r in
      if a \<le> 0 then None
      else
        let l = sqrt a;
            v = map (\<lambda>row. hd row / l) rs;
            schur = map2 (\<lambda>vi row. map2 (\<lambda>vj x. x - vi * vj) v (tl row)) v rs
        in case cholesky schur of
             None \<Rightarrow> None
           | Some L' \<Rightarrow> Some ((l # replicate (length rs) 0) # map2 (#) v L'))"

text \<open>
  Modelled from the spec: \<^verbatim>\<open>np.linalg.cholesky\<close> is NumPy's, not in the repository.
  The argument must have two dimensions and be square, and the factorisation of finite
  entries must not meet a pivot that is not positive. The result is the message of the
  \<^verbatim>\<open>LinAlgError\<close>, or the factor. A matrix whose entries are NaN raises nothing in
  the builds of NumPy on OpenBLAS, whose factorisation does not test a pivot for NaN:
  the factor that comes back has NaN entries; it is \<open>None\<close>.

  The pivots are those of exact arithmetic. On a singular matrix, where a pivot is
  exactly zero over the reals, the rounding of the doubles can leave a tiny positive
  pivot and a factor; no property below rests on the outcome at a singular matrix.
\<close>

definition np_linalg_cholesky :: "cov_array \<Rightarrow> string + matrix option" where
  "np_linalg_cholesky a =
     (case a of
        Zero_dim v \<Rightarrow>
          Inl ''0-dimensional array given. Array must be at least two-dimensional''
      | Two_dim None \<Rightarrow> Inr None
      | Two_dim (Some m) \<Rightarrow>
          if \<exists>row \<in> set m. length row \<noteq> length m then
            Inl ''Last 2 dimensions of the array must be square''
          else
            (case cholesky m of
               None \<Rightarrow> Inl ''Matrix is not positive definite''
             | Some L \<Rightarrow> Inr (Some L)))"

text \<open>The scalar product of two vectors.\<close>

definition dot :: "real list \<Rightarrow> real list \<Rightarrow> real" where
  "dot xs ys = sum_list (map2 (*) xs ys)"

section \<open>The warm-start selector\<close>

text \<open>
  The difference of two one-dimensional arrays, with NumPy's broadcasting of an array
  of one entry.
\<close>

definition np_subtract :: "real list \<Rightarrow> real list \<Rightarrow> error + real list" where
  "np_subtract xs ys =
     (if length xs = length ys then Inr (map2 (-) xs ys)
      else if length xs = 1 then Inr (map (\<lambda>y. hd xs - y) ys)
      else if length ys = 1 then Inr (map (\<lambda>x. x - hd ys) xs)
      else Inl (ValueError ''operands could not be broadcast together''))"

text \<open>\<^verbatim>\<open>_calculate_weights_warm_start(beta, current_loglikelihoods, previous_loglikelihoods)\<close>.\<close>

definition calculate_weights_warm_start ::
  "real \<Rightarrow> real list \<Rightarrow> real list \<Rightarrow> error + real list" where
  "calculate_weights_warm_start beta current_loglikelihoods previous_loglikelihoods =
     (case np_subtract current_loglikelihoods previous_loglikelihoods of
        Inl e \<Rightarrow> Inl e
      | Inr difference \<Rightarrow>
          let log_weights = map (\<lambda>x. beta * x) difference in
          case np_max log_weights of
            Inl e \<Rightarrow> Inl e
          | Inr m \<Rightarrow>
              let normalized_log_weights = map (\<lambda>x. x - m) log_weights;
                  normalized_weights = map exp normalized_log_weights
              in Inr (map (\<lambda>x. x / sum_list normalized_weights) normalized_weights))"

text \<open>
  The loop of \<^verbatim>\<open>calculate_warm_start_stage\<close> over the stage numbers, and the function:
  the stage numbers are the keys of the samples dictionary, largest first; the first
  stage whose weights have a coefficient of variation below the threshold is returned,
  and 0 when there is none.
\<close>

fun warm_start_loop ::
  "(array2d \<Rightarrow> real list) \<Rightarrow> (int \<times> array2d) list \<Rightarrow> (int \<times> real) list \<Rightarrow>
   (int \<times> real list) list \<Rightarrow> real \<Rightarrow> int list \<Rightarrow> error + int" where
  "warm_start_loop current_loglikelihood_approximation samples betas log_likelihoods
       threshold_cov [] = Inr 0"
| "warm_start_loop current_loglikelihood_approximation samples betas log_likelihoods
       threshold_cov (stage_num # stage_nums) =
     (case map_of samples stage_num of
        None \<Rightarrow> Inl (KeyError stage_num)
      | Some stage_samples \<Rightarrow>
          let current_loglikelihoods = current_loglikelihood_approximation stage_samples in
          (case map_of log_likelihoods stage_num of
             None \<Rightarrow> Inl (KeyError stage_num)
           | Some previous_loglikelihoods \<Rightarrow>
          (case map_of betas stage_num of
             None \<Rightarrow> Inl (KeyError stage_num)
           | Some beta \<Rightarrow>
          (case calculate_weights_warm_start beta current_loglikelihoods
                  previous_loglikelihoods of
             Inl e \<Rightarrow> Inl e
           | Inr weights \<Rightarrow>
               if cov_weights weights < threshold_cov then Inr stage_num
               else warm_start_loop current_loglikelihood_approximation samples betas
                      log_likelihoods threshold_cov stage_nums))))"

definition calculate_warm_start_stage ::
  "(array2d \<Rightarrow> real list) \<Rightarrow> (int \<times> array2d) list \<Rightarrow> (int \<times> real) list \<Rightarrow>
   (int \<times> real list) list \<Rightarrow> real \<Rightarrow> error + int" where
  "calculate_warm_start_stage current_loglikelihood_approximation samples betas log_likelihoods
       threshold_cov =
     warm_start_loop current_loglikelihood_approximation samples betas log_likelihoods
       threshold_cov (rev (sort (map fst samples)))"

section \<open>The selector in double precision\<close>

text \<open>
  The selector compares a computed coefficient of variation with the threshold, and for
  weights that are equal over the reals the computed value is the rounding error of
  the arithmetic. This section follows the arithmetic of IEEE binary64 on finite
  numbers in its normal range (no overflow, no subnormal number): the result of an
  operation is the exact result rounded to the nearest number with 53 significant
  bits, a tie going to the even one. \<open>round_half_even\<close> rounds to an integer,
  \<open>round_to_double\<close> to a double.
\<close>

definition round_half_even :: "real \<Rightarrow> int" where
  "round_half_even y =
     (let n = \<lfloor>y\<rfloor>; r = y - of_int n in
      if r < 1 / 2 then n else if 1 / 2 < r then n + 1 else if even n then n else n + 1)"

definition round_to_double :: "real \<Rightarrow> real" where
  "round_to_double x =
     (if x = 0 then 0
      else let ulp = 2 powr (of_int \<lfloor>log 2 \<bar>x\<bar>\<rfloor> - 52)
           in of_int (round_half_even (x / ulp)) * ulp)"

text \<open>
  \<^verbatim>\<open>np.sum\<close> of a one-dimensional array of fewer than eight doubles: the entries are
  added in sequence, from zero. (NumPy adds a longer array in blocks of eight partial
  sums; this function does not follow that, and the statements below are about fewer
  than eight entries.)
\<close>

definition sum_double :: "real list \<Rightarrow> real" where
  "sum_double xs = foldl (\<lambda>acc x. round_to_double (acc + x)) 0 xs"

text \<open>
  \<^verbatim>\<open>np.nanmean\<close> and \<^verbatim>\<open>np.nanstd\<close> on an array of doubles with no NaN, where they are
  \<^verbatim>\<open>np.mean\<close> and the root of \<^verbatim>\<open>np.var\<close>: the sum over the number of entries; the
  deviations from that mean, their squares, the sum of the squares over the number of
  entries, and its root.
\<close>

definition nanmean_double :: "real list \<Rightarrow> real" where
  "nanmean_double xs = round_to_double (sum_double xs / real (length xs))"

definition nanstd_double :: "real list \<Rightarrow> real" where
  "nanstd_double xs =
     (let arrmean = nanmean_double xs;
          x = map (\<lambda>a. round_to_double (a - arrmean)) xs;
          squares = map (\<lambda>a. round_to_double (a * a)) x
      in round_to_double (sqrt (round_to_double (sum_double squares / real (length xs)))))"

definition cov_weights_double :: "real list \<Rightarrow> real" where
  "cov_weights_double weights = round_to_double (nanstd_double weights / nanmean_double weights)"

text \<open>
  \<^verbatim>\<open>_calculate_weights_warm_start\<close> and \<^verbatim>\<open>calculate_warm_start_stage\<close> on doubles, each
  operation rounded. The exponential is taken as correctly rounded, which the
  library's is at 0, where it is exactly 1; the statements below use it only there.
\<close>

definition calculate_weights_warm_start_double ::
  "real \<Rightarrow> real list \<Rightarrow> real list \<Rightarrow> error + real list" where
  "calculate_weights_warm_start_double beta current_loglikelihoods previous_loglikelihoods =
     (case np_subtract current_loglikelihoods previous_loglikelihoods of
        Inl e \<Rightarrow> Inl e
      | Inr difference \<Rightarrow>
          let log_weights = map (\<lambda>x. round_to_double (beta * round_to_double x)) difference in
          case np_max log_weights of
            Inl e \<Rightarrow> Inl e
          | Inr m \<Rightarrow>
              let normalized_log_weights = map (\<lambda>x. round_to_double (x - m)) log_weights;
                  normalized_weights = map (\<lambda>x. round_to_double (exp x)) normalized_log_weights;
                  total = sum_double normalized_weights
              in Inr (map (\<lambda>x. round_to_double (x / total)) normalized_weights))"

fun warm_start_loop_double ::
  "(array2d \<Rightarrow> real list) \<Rightarrow> (int \<times> array2d) list \<Rightarrow> (int \<times> real) list \<Rightarrow>
   (int \<times> real list) list \<Rightarrow> real \<Rightarrow> int list \<Rightarrow> error + int" where
  "warm_start_loop_double current_loglikelihood_approximation samples betas log_likelihoods
       threshold_cov [] = Inr 0"
| "warm_start_loop_double current_loglikelihood_approximation samples betas log_likelihoods
       threshold_cov (stage_num # stage_nums) =
     (case map_of samples stage_num of
        None \<Rightarrow> Inl (KeyError stage_num)
      | Some stage_samples \<Rightarrow>
          let current_loglikelihoods = current_loglikelihood_approximation stage_samples in
          (case map_of log_likelihoods stage_num of
             None \<Rightarrow> Inl (KeyError stage_num)
           | Some previous_loglikelihoods \<Rightarrow>
          (case map_of betas stage_num of
             None \<Rightarrow> Inl (KeyError stage_num)
           | Some beta \<Rightarrow>
          (case calculate_weights_warm_start_double beta current_loglikelihoods
                  previous_loglikelihoods of
             Inl e \<Rightarrow> Inl e
           | Inr weights \<Rightarrow>
               if cov_weights_double weights < threshold_cov then Inr stage_num
               else warm_start_loop_double current_loglikelihood_approximation samples betas
                      log_likelihoods threshold_cov stage_nums))))"

definition calculate_warm_start_stage_double ::
  "(array2d \<Rightarrow> real list) \<Rightarrow> (int \<times> array2d) list \<Rightarrow> (int \<times> real) list \<Rightarrow>
   (int \<times> real list) list \<Rightarrow> real \<Rightarrow> error + int" where
  "calculate_warm_start_stage_double current_loglikelihood_approximation samples betas
       log_likelihoods threshold_cov =
     warm_start_loop_double current_loglikelihood_approximation samples betas log_likelihoods
       threshold_cov (rev (sort (map fst samples)))"

section \<open>The rejuvenation engine\<close>

text \<open>
  The random generator \<^verbatim>\<open>rng\<close> is NumPy's: the stage takes its three operations as a
  parameter, each from the state of the generator to the draw and the next state.
  \<open>choice g n p\<close> is \<^verbatim>\<open>rng.choice(n, p=p)\<close>, \<open>standard_normal g d\<close> is
  \<^verbatim>\<open>rng.standard_normal(size=d)\<close> and \<open>uniform g\<close> is \<^verbatim>\<open>rng.uniform()\<close>.
\<close>

record 'g generator =
  choice :: "'g \<Rightarrow> nat \<Rightarrow> real list \<Rightarrow> nat \<times> 'g"
  standard_normal :: "'g \<Rightarrow> nat \<Rightarrow> real list \<times> 'g"
  uniform :: "'g \<Rightarrow> real \<times> 'g"

text \<open>
  The attributes of a \<^verbatim>\<open>TMCMC\<close> instance. The two evaluators take an array of rows; the
  array they return is the list of its entries, its \<^verbatim>\<open>size\<close> is the length of the list.
\<close>

record tmcmc =
  log_likelihood_approximation :: "array2d \<Rightarrow> real list"
  log_posterior_approximation :: "array2d \<Rightarrow> real list \<Rightarrow> real list"
  num_steps :: int
  threshold_cov :: real
  thinning_factor :: int
  adapt_frequency :: int

text \<open>The variables that the loops of \<^verbatim>\<open>_run_one_stage\<close> update.\<close>

record 'g stage_state =
  current_samples :: array2d
  current_log_likelihoods :: "real list"
  current_log_target_density_values :: "real list"
  weights :: "real list"
  scale_factor :: real
  cholesky_lower_triangular_matrix :: matrix
  num_accepts :: nat
  n_adapt :: nat
  step_count :: nat
  steps_per_row :: int
  new_samples :: array2d
  new_log_likelihoods :: "real list"
  new_log_target_density_values :: "real list"
  rng :: 'g

text \<open>Decimal digits of a size, as an f-string prints it.\<close>

fun string_of_nat :: "nat \<Rightarrow> string" where
  "string_of_nat n =
     (if n < 10 then [''0123456789'' ! n]
      else string_of_nat (n div 10) @ [''0123456789'' ! (n mod 10)])"

declare string_of_nat.simps [simp del]

text \<open>\<^verbatim>\<open>TMCMC._generate_error_message(size)\<close>.\<close>

definition generate_error_message :: "nat \<Rightarrow> string" where
  "generate_error_message n = ''Expected a single value, but got '' @ string_of_nat n @ '' values.''"

text \<open>Reading and writing an array at an index: out of range is \<^verbatim>\<open>IndexError\<close>.\<close>

definition get_item :: "'a list \<Rightarrow> nat \<Rightarrow> error + 'a" where
  "get_item xs i = (if i < length xs then Inr (xs ! i) else Inl IndexError)"

definition set_item :: "'a list \<Rightarrow> nat \<Rightarrow> 'a \<Rightarrow> error + 'a list" where
  "set_item xs i v = (if i < length xs then Inr (xs[i := v]) else Inl IndexError)"

definition set_row :: "array2d \<Rightarrow> nat \<Rightarrow> real list \<Rightarrow> error + array2d" where
  "set_row a i v =
     (case set_item (rows a) i v of Inl e \<Rightarrow> Inl e | Inr rs \<Rightarrow> Inr (a\<lparr>rows := rs\<rparr>))"

text \<open>The product of a matrix and a vector, \<^verbatim>\<open>L @ z\<close>.\<close>

definition matvec :: "matrix \<Rightarrow> real list \<Rightarrow> real list" where
  "matvec m z = map (\<lambda>row. dot row z) m"

text \<open>
  \<^verbatim>\<open>np.log(u) <= r\<close>: the logarithm of 0 is \<open>-\<infinity>\<close>, below every real; of a negative
  number it is NaN, which compares false.
\<close>

definition log_le :: "real \<Rightarrow> real \<Rightarrow> bool" where
  "log_le u r = (if u = 0 then True else if u < 0 then False else ln u \<le> r)"

text \<open>
  The truth value of an array of booleans, as \<^verbatim>\<open>if accept:\<close> asks for it: only an
  array with one entry has one.
\<close>

fun truth_value :: "bool list \<Rightarrow> error + bool" where
  "truth_value [b] = Inr b"
| "truth_value [] = Inl (ValueError ''The truth value of an empty array is ambiguous.'')"
| "truth_value bs =
     Inl (ValueError
       ''The truth value of an array with more than one element is ambiguous. Use a.any() or a.all()'')"

text \<open>
  The adaptation of the proposal scale, every \<^verbatim>\<open>adapt_frequency\<close> steps. The
  factorisation is not guarded here: its \<^verbatim>\<open>LinAlgError\<close> leaves the stage as it is.
  With a factor of NaN entries the source goes on, and the embedding stops.
\<close>

definition adapt_proposal :: "tmcmc \<Rightarrow> real \<Rightarrow> 'g stage_state \<Rightarrow> error + 'g stage_state" where
  "adapt_proposal self target_acceptance_rate s =
     (let acceptance_rate = real (num_accepts s) / real_of_int (adapt_frequency self);
          n_adapt' = n_adapt s + 1;
          ca = (acceptance_rate - target_acceptance_rate) / sqrt (real n_adapt');
          scale_factor' = scale_factor s * exp ca
      in case get_scaled_proposal_covariance (current_samples s) (weights s) scale_factor' of
           Inl e \<Rightarrow> Inl e
         | Inr proposal_covariance \<Rightarrow>
             (case np_linalg_cholesky proposal_covariance of
                Inl msg \<Rightarrow> Inl (LinAlgError msg)
              | Inr None \<Rightarrow> Inl Non_finite_values
              | Inr (Some L) \<Rightarrow>
                  Inr (s\<lparr>num_accepts := 0, n_adapt := n_adapt', scale_factor := scale_factor',
                         cholesky_lower_triangular_matrix := L\<rparr>)))"

text \<open>
  What the source does when a proposal is accepted: count it, store the proposed row,
  then check the size of each evaluator's value, store it, and past the burn-in
  recompute the weights.
\<close>

definition accept_proposal ::
  "real \<Rightarrow> real \<Rightarrow> nat \<Rightarrow> int \<Rightarrow> nat \<Rightarrow> real list \<Rightarrow> real list \<Rightarrow> real list \<Rightarrow>
   'g stage_state \<Rightarrow> error + 'g stage_state" where
  "accept_proposal new_beta beta k burn_in_steps index proposed_state
       log_likelihood_at_proposed_state log_target_density_at_proposed_state s =
     (case set_row (current_samples s) index proposed_state of
        Inl e \<Rightarrow> Inl e
      | Inr samples' \<Rightarrow>
          if length log_likelihood_at_proposed_state \<noteq> 1 then
            Inl (ValueError (generate_error_message (length log_likelihood_at_proposed_state)))
          else
            (case set_item (current_log_likelihoods s) index
                    (hd log_likelihood_at_proposed_state) of
               Inl e \<Rightarrow> Inl e
             | Inr log_likelihoods' \<Rightarrow>
                 if length log_target_density_at_proposed_state \<noteq> 1 then
                   Inl (ValueError
                     (generate_error_message (length log_target_density_at_proposed_state)))
                 else
                   (case set_item (current_log_target_density_values s) index
                           (hd log_target_density_at_proposed_state) of
                      Inl e \<Rightarrow> Inl e
                    | Inr log_target_density_values' \<Rightarrow>
                        let s' = s\<lparr>num_accepts := num_accepts s + 1,
                                   current_samples := samples',
                                   current_log_likelihoods := log_likelihoods',
                                   current_log_target_density_values :=
                                     log_target_density_values'\<rparr>
                        in if int k \<ge> burn_in_steps then
                             (case calculate_weights (new_beta - beta) log_likelihoods' of
                                Inl e \<Rightarrow> Inl e
                              | Inr w \<Rightarrow> Inr (s'\<lparr>weights := w\<rparr>))
                           else Inr s')))"

text \<open>
  One round of the inner loop \<^verbatim>\<open>for _ in range(num_steps)\<close>, in its three parts.
  First the step is counted and, when the count is a multiple of \<^verbatim>\<open>adapt_frequency\<close>,
  the proposal is adapted (the remainder by zero raises).
\<close>

definition adapt_if_due :: "tmcmc \<Rightarrow> real \<Rightarrow> 'g stage_state \<Rightarrow> error + 'g stage_state" where
  "adapt_if_due self target_acceptance_rate s0 =
     (let s1 = s0\<lparr>step_count := step_count s0 + 1\<rparr> in
      if adapt_frequency self = 0 then Inl ZeroDivisionError
      else if int (step_count s1) mod adapt_frequency self = 0
      then adapt_proposal self target_acceptance_rate s1
      else Inr s1)"

text \<open>
  Then a state is proposed from row \<open>index\<close>, the two evaluators are called on it, and
  \<^verbatim>\<open>accept = np.log(u) <= log_hastings_ratio\<close> is decided by \<^verbatim>\<open>if accept:\<close>. The result
  is the proposed state, the values of the two evaluators, the decision and the
  generator after the two draws.
\<close>

definition propose ::
  "'g generator \<Rightarrow> (array2d \<Rightarrow> real list) \<Rightarrow> (array2d \<Rightarrow> real list \<Rightarrow> real list) \<Rightarrow> nat \<Rightarrow>
   'g stage_state \<Rightarrow> error + (real list \<times> real list \<times> real list \<times> bool \<times> 'g)" where
  "propose G log_likelihood_function log_target_density_function index s =
     (case standard_normal G (rng s) (ncols (current_samples s)) of
        (standard_normal_samples, g1) \<Rightarrow>
     (case get_item (rows (current_samples s)) index of
        Inl e \<Rightarrow> Inl e
      | Inr current_row \<Rightarrow>
          let proposed_state =
                map2 (+) current_row
                  (matvec (cholesky_lower_triangular_matrix s) standard_normal_samples);
              proposed = \<lparr>ncols = ncols (current_samples s), rows = [proposed_state]\<rparr>;
              log_likelihood_at_proposed_state = log_likelihood_function proposed;
              log_target_density_at_proposed_state =
                log_target_density_function proposed log_likelihood_at_proposed_state
          in
          (case get_item (current_log_target_density_values s) index of
             Inl e \<Rightarrow> Inl e
           | Inr current_value \<Rightarrow>
               let log_hastings_ratio =
                     map (\<lambda>x. x - current_value) log_target_density_at_proposed_state
               in
               (case uniform G g1 of
                  (u, g2) \<Rightarrow>
                    (case truth_value (map (log_le u) log_hastings_ratio) of
                       Inl e \<Rightarrow> Inl e
                     | Inr accept \<Rightarrow>
                         Inr (proposed_state, log_likelihood_at_proposed_state,
                              log_target_density_at_proposed_state, accept, g2))))))"

text \<open>Last, an accepted proposal is stored; a rejected one leaves the arrays as they are.\<close>

definition mh_step ::
  "'g generator \<Rightarrow> tmcmc \<Rightarrow> (array2d \<Rightarrow> real list) \<Rightarrow> (array2d \<Rightarrow> real list \<Rightarrow> real list) \<Rightarrow>
   real \<Rightarrow> real \<Rightarrow> real \<Rightarrow> nat \<Rightarrow> int \<Rightarrow> nat \<Rightarrow> 'g stage_state \<Rightarrow> error + 'g stage_state" where
  "mh_step G self log_likelihood_function log_target_density_function target_acceptance_rate
       new_beta beta k burn_in_steps index s0 =
     (case adapt_if_due self target_acceptance_rate s0 of
        Inl e \<Rightarrow> Inl e
      | Inr s \<Rightarrow>
     (case propose G log_likelihood_function log_target_density_function index s of
        Inl e \<Rightarrow> Inl e
      | Inr (proposed_state, log_likelihood_at_proposed_state,
             log_target_density_at_proposed_state, accept, g2) \<Rightarrow>
          if accept then
            accept_proposal new_beta beta k burn_in_steps index proposed_state
              log_likelihood_at_proposed_state log_target_density_at_proposed_state
              (s\<lparr>rng := g2\<rparr>)
          else Inr (s\<lparr>rng := g2\<rparr>)))"

text \<open>A loop body repeated \<open>n\<close> times, or over the values of a range, until it raises.\<close>

fun iterate_err :: "nat \<Rightarrow> ('s \<Rightarrow> error + 's) \<Rightarrow> 's \<Rightarrow> error + 's" where
  "iterate_err 0 f s = Inr s"
| "iterate_err (Suc n) f s = (case f s of Inl e \<Rightarrow> Inl e | Inr s' \<Rightarrow> iterate_err n f s')"

fun fold_err :: "('a \<Rightarrow> 's \<Rightarrow> error + 's) \<Rightarrow> 'a list \<Rightarrow> 's \<Rightarrow> error + 's" where
  "fold_err f [] s = Inr s"
| "fold_err f (x # xs) s = (case f x s of Inl e \<Rightarrow> Inl e | Inr s' \<Rightarrow> fold_err f xs s')"

text \<open>The rows written to the output arrays at the end of round \<open>k\<close> of the outer loop.\<close>

definition emit_row :: "nat \<Rightarrow> nat \<Rightarrow> 'g stage_state \<Rightarrow> error + 'g stage_state" where
  "emit_row k_prime index s =
     (case get_item (rows (current_samples s)) index of
        Inl e \<Rightarrow> Inl e
      | Inr row \<Rightarrow>
     (case set_row (new_samples s) k_prime row of
        Inl e \<Rightarrow> Inl e
      | Inr samples' \<Rightarrow>
     (case get_item (current_log_likelihoods s) index of
        Inl e \<Rightarrow> Inl e
      | Inr ll \<Rightarrow>
     (case set_item (new_log_likelihoods s) k_prime ll of
        Inl e \<Rightarrow> Inl e
      | Inr log_likelihoods' \<Rightarrow>
     (case get_item (current_log_target_density_values s) index of
        Inl e \<Rightarrow> Inl e
      | Inr lt \<Rightarrow>
     (case set_item (new_log_target_density_values s) k_prime lt of
        Inl e \<Rightarrow> Inl e
      | Inr log_target_density_values' \<Rightarrow>
          Inr (s\<lparr>new_samples := samples', new_log_likelihoods := log_likelihoods',
                 new_log_target_density_values := log_target_density_values'\<rparr>)))))))"

text \<open>One round of the outer loop \<^verbatim>\<open>for k in range(burn_in_steps + num_samples)\<close>.\<close>

definition stage_round ::
  "'g generator \<Rightarrow> tmcmc \<Rightarrow> (array2d \<Rightarrow> real list) \<Rightarrow> (array2d \<Rightarrow> real list \<Rightarrow> real list) \<Rightarrow>
   real \<Rightarrow> real \<Rightarrow> real \<Rightarrow> bool \<Rightarrow> int \<Rightarrow> nat \<Rightarrow> nat \<Rightarrow> 'g stage_state \<Rightarrow> error + 'g stage_state" where
  "stage_round G self log_likelihood_function log_target_density_function target_acceptance_rate
       new_beta beta do_thinning burn_in_steps num_samples k s =
     (case choice G (rng s) num_samples (weights s) of
        (index, g1) \<Rightarrow>
          let s1 = s\<lparr>rng := g1\<rparr>;
              s2 = (if int k \<ge> burn_in_steps \<and> (new_beta = 1 \<or> do_thinning)
                    then s1\<lparr>steps_per_row := num_steps self * thinning_factor self\<rparr> else s1)
          in case iterate_err (nat (steps_per_row s2))
                    (mh_step G self log_likelihood_function log_target_density_function
                       target_acceptance_rate new_beta beta k burn_in_steps index) s2 of
               Inl e \<Rightarrow> Inl e
             | Inr s3 \<Rightarrow>
                 if int k \<ge> burn_in_steps then emit_row (nat (int k - burn_in_steps)) index s3
                 else Inr s3)"

text \<open>
  How a round of the outer loop starts, for the statements about a round: the row that
  is drawn, and the state in which the inner loop begins.
\<close>

definition round_start ::
  "'g generator \<Rightarrow> tmcmc \<Rightarrow> real \<Rightarrow> bool \<Rightarrow> int \<Rightarrow> nat \<Rightarrow> nat \<Rightarrow> 'g stage_state \<Rightarrow>
   nat \<times> 'g stage_state" where
  "round_start G self new_beta do_thinning burn_in_steps num_samples k s =
     (case choice G (rng s) num_samples (weights s) of
        (index, g1) \<Rightarrow>
          let s1 = s\<lparr>rng := g1\<rparr> in
          (index,
           if int k \<ge> burn_in_steps \<and> (new_beta = 1 \<or> do_thinning)
           then s1\<lparr>steps_per_row := num_steps self * thinning_factor self\<rparr> else s1))"

section \<open>The stage\<close>

text \<open>
  What a stage returns: the new samples, log-likelihoods, log-target-density values and
  beta, the log-evidence increment, and the generator as the stage leaves it.
\<close>

type_synonym 'g stage_result = "(array2d \<times> real list \<times> real list \<times> real \<times> real) \<times> 'g"

text \<open>
  \<^verbatim>\<open>_run_one_stage\<close> from the new beta on. The factorisation is guarded by
  \<^verbatim>\<open>try\<close>: a \<^verbatim>\<open>LinAlgError\<close> becomes the runtime error
  \<^verbatim>\<open>Cholesky decomposition failed: ...\<close>. A factor of NaN entries is no exception and
  passes the guard; the source goes on with it, and the embedding stops.
\<close>

definition rejuvenate ::
  "'g generator \<Rightarrow> tmcmc \<Rightarrow> array2d \<Rightarrow> real list \<Rightarrow> real list \<Rightarrow> real \<Rightarrow> 'g \<Rightarrow>
   (array2d \<Rightarrow> real list) \<Rightarrow> (array2d \<Rightarrow> real list \<Rightarrow> real list) \<Rightarrow> real \<Rightarrow> real \<Rightarrow> bool \<Rightarrow> int \<Rightarrow>
   real \<Rightarrow> error + 'g stage_result" where
  "rejuvenate G self samples log_likelihoods log_target_density_values beta g
       log_likelihood_function log_target_density_function scale_factor0 target_acceptance_rate
       do_thinning burn_in_steps new_beta =
     (case calculate_log_evidence (new_beta - beta) log_likelihoods of
        Inl e \<Rightarrow> Inl e
      | Inr log_evidence \<Rightarrow>
     (case calculate_weights (new_beta - beta) log_likelihoods of
        Inl e \<Rightarrow> Inl e
      | Inr weights0 \<Rightarrow>
     (case get_scaled_proposal_covariance samples weights0 scale_factor0 of
        Inl e \<Rightarrow> Inl e
      | Inr proposal_covariance \<Rightarrow>
     (case np_linalg_cholesky proposal_covariance of
        Inl exc \<Rightarrow> Inl (RuntimeError (''Cholesky decomposition failed: '' @ exc))
      | Inr None \<Rightarrow> Inl Non_finite_values
      | Inr (Some L) \<Rightarrow>
          let num_samples = length (rows samples);
              s0 = \<lparr>current_samples = samples,
                    current_log_likelihoods = log_likelihoods,
                    current_log_target_density_values = log_target_density_values,
                    weights = weights0,
                    scale_factor = scale_factor0,
                    cholesky_lower_triangular_matrix = L,
                    num_accepts = 0,
                    n_adapt = 1,
                    step_count = 0,
                    steps_per_row = num_steps self,
                    new_samples = samples\<lparr>rows := map (map (\<lambda>x. 0)) (rows samples)\<rparr>,
                    new_log_likelihoods = map (\<lambda>x. 0) log_likelihoods,
                    new_log_target_density_values = map (\<lambda>x. 0) log_target_density_values,
                    rng = g\<rparr>
          in case fold_err
                    (stage_round G self log_likelihood_function log_target_density_function
                       target_acceptance_rate new_beta beta do_thinning burn_in_steps num_samples)
                    [0..<nat (burn_in_steps + int num_samples)] s0 of
               Inl e \<Rightarrow> Inl e
             | Inr s \<Rightarrow>
                 Inr ((new_samples s, new_log_likelihoods s, new_log_target_density_values s,
                       new_beta, log_evidence), rng s)))))"

text \<open>
  The variables of the stage as its loops start, for the statements about a stage: what
  \<open>rejuvenate\<close> builds from the weights and the factor.
\<close>

definition initial_stage_state ::
  "tmcmc \<Rightarrow> array2d \<Rightarrow> real list \<Rightarrow> real list \<Rightarrow> real list \<Rightarrow> real \<Rightarrow> matrix \<Rightarrow> 'g \<Rightarrow>
   'g stage_state" where
  "initial_stage_state self samples log_likelihoods log_target_density_values weights0
       scale_factor0 L g =
     \<lparr>current_samples = samples,
      current_log_likelihoods = log_likelihoods,
      current_log_target_density_values = log_target_density_values,
      weights = weights0,
      scale_factor = scale_factor0,
      cholesky_lower_triangular_matrix = L,
      num_accepts = 0,
      n_adapt = 1,
      step_count = 0,
      steps_per_row = num_steps self,
      new_samples = samples\<lparr>rows := map (map (\<lambda>x. 0)) (rows samples)\<rparr>,
      new_log_likelihoods = map (\<lambda>x. 0) log_likelihoods,
      new_log_target_density_values = map (\<lambda>x. 0) log_target_density_values,
      rng = g\<rparr>"

text \<open>
  \<^verbatim>\<open>TMCMC._run_one_stage\<close>. The temperature step is
  \<^verbatim>\<open>_increment_beta(log_likelihoods, beta)\<close>: the threshold is the default of the
  parameter. The stage has no result over the reals, \<open>None\<close>, when the temperature
  step does not return and when the stage goes on with entries that are not finite:
  then the source raises nothing, and what it returns is not followed here.
\<close>

definition run_one_stage ::
  "root_finder \<Rightarrow> 'g generator \<Rightarrow> tmcmc \<Rightarrow> array2d \<Rightarrow> real list \<Rightarrow> real list \<Rightarrow> real \<Rightarrow> 'g \<Rightarrow>
   (array2d \<Rightarrow> real list) \<Rightarrow> (array2d \<Rightarrow> real list \<Rightarrow> real list) \<Rightarrow> real \<Rightarrow> real \<Rightarrow> bool \<Rightarrow> int \<Rightarrow>
   (error + 'g stage_result) option" where
  "run_one_stage root_scalar G self samples log_likelihoods log_target_density_values beta g
       log_likelihood_function log_target_density_function scale_factor0 target_acceptance_rate
       do_thinning burn_in_steps =
     (case increment_beta root_scalar log_likelihoods beta default_threshold_cov of
        None \<Rightarrow> None
      | Some (Inl e) \<Rightarrow> Some (Inl e)
      | Some (Inr new_beta) \<Rightarrow>
          let result =
                rejuvenate G self samples log_likelihoods log_target_density_values beta g
                  log_likelihood_function log_target_density_function scale_factor0
                  target_acceptance_rate do_thinning burn_in_steps new_beta
          in if result = Inl Non_finite_values then None else Some result)"

section \<open>The stage driver\<close>

text \<open>
  The five dictionaries of the run state, each from a stage number to its value: a list
  of pairs in the order of insertion, read with \<open>map_of\<close> and written with
  \<open>AList.update\<close> (which replaces the value of a key in place and puts a new key last).
\<close>

record run_state =
  samples_dict :: "(int \<times> array2d) list"
  betas_dict :: "(int \<times> real) list"
  log_likelihoods_dict :: "(int \<times> real list) list"
  log_target_density_values_dict :: "(int \<times> real list) list"
  log_evidence_dict :: "(int \<times> real) list"

text \<open>
  \<^verbatim>\<open>run\<close> updates the caller's dictionaries in place: when an exception leaves it, the
  caller still holds them as they are at that moment. A call either returns the
  dictionaries or raises and leaves them behind.
\<close>

datatype run_result = Returned run_state | Raised error run_state

text \<open>
  The five assignments that follow the call of \<^verbatim>\<open>_run_one_stage\<close> in the loop: the
  results of the stage are stored under the new stage number.
\<close>

definition store_stage ::
  "run_state \<Rightarrow> int \<Rightarrow> array2d \<times> real list \<times> real list \<times> real \<times> real \<Rightarrow> run_state" where
  "store_stage st stage_num result =
     (case result of
        (out_samples, out_log_likelihoods, out_log_target_density_values, new_beta,
         log_evidence) \<Rightarrow>
          st\<lparr>samples_dict := AList.update stage_num out_samples (samples_dict st),
             betas_dict := AList.update stage_num new_beta (betas_dict st),
             log_likelihoods_dict :=
               AList.update stage_num out_log_likelihoods (log_likelihoods_dict st),
             log_target_density_values_dict :=
               AList.update stage_num out_log_target_density_values
                 (log_target_density_values_dict st),
             log_evidence_dict := AList.update stage_num log_evidence (log_evidence_dict st)\<rparr>)"

text \<open>
  The loop \<^verbatim>\<open>while betas_dict[stage_num] < 1\<close> of \<^verbatim>\<open>TMCMC.run\<close>. The source gives no bound
  on the number of stages: not returning is \<open>None\<close>.
\<close>

partial_function (option) run_loop ::
  "root_finder \<Rightarrow> 'g generator \<Rightarrow> tmcmc \<Rightarrow> real \<Rightarrow> real \<Rightarrow> int \<Rightarrow> run_state \<Rightarrow> 'g \<Rightarrow> int \<Rightarrow>
   run_result option" where
  "run_loop root_scalar G self scale_factor0 target_acceptance_rate num_burn_in st g stage_num =
     (case map_of (betas_dict st) stage_num of
        None \<Rightarrow> Some (Raised (KeyError stage_num) st)
      | Some beta \<Rightarrow>
          if beta < 1 then
            (case map_of (samples_dict st) stage_num of
               None \<Rightarrow> Some (Raised (KeyError stage_num) st)
             | Some samples \<Rightarrow>
            (case map_of (log_likelihoods_dict st) stage_num of
               None \<Rightarrow> Some (Raised (KeyError stage_num) st)
             | Some log_likelihoods \<Rightarrow>
            (case map_of (log_target_density_values_dict st) stage_num of
               None \<Rightarrow> Some (Raised (KeyError stage_num) st)
             | Some log_target_density_values \<Rightarrow>
            (case run_one_stage root_scalar G self samples log_likelihoods
                    log_target_density_values beta g (log_likelihood_approximation self)
                    (log_posterior_approximation self) scale_factor0 target_acceptance_rate
                    False num_burn_in of
               None \<Rightarrow> None
             | Some (Inl e) \<Rightarrow> Some (Raised e st)
             | Some (Inr (result, g')) \<Rightarrow>
                 run_loop root_scalar G self scale_factor0 target_acceptance_rate num_burn_in
                   (store_stage st (stage_num + 1) result) g' (stage_num + 1)))))
          else Some (Returned st))"

text \<open>
  \<^verbatim>\<open>TMCMC.run\<close>. The number of dimensions is read from the samples of stage 0; the
  target acceptance rate divides by it.
\<close>

definition run ::
  "root_finder \<Rightarrow> 'g generator \<Rightarrow> tmcmc \<Rightarrow> run_state \<Rightarrow> 'g \<Rightarrow> int \<Rightarrow> int \<Rightarrow> run_result option" where
  "run root_scalar G self st g stage_num num_burn_in =
     (case map_of (samples_dict st) 0 of
        None \<Rightarrow> Some (Raised (KeyError 0) st)
      | Some samples0 \<Rightarrow>
          let num_dimensions = ncols samples0 in
          if num_dimensions = 0 then Some (Raised ZeroDivisionError st)
          else
            let target_acceptance_rate = 23 / 100 + (21 / 100) / real num_dimensions;
                scale_factor0 = (24 / 10) / sqrt (real num_dimensions)
            in run_loop root_scalar G self scale_factor0 target_acceptance_rate num_burn_in
                 st g stage_num)"

text \<open>
  One complete stage of the driver, as a relation between the state of the loop before
  and after it: the stage returned, and its five results are stored under the next
  stage number.
\<close>

inductive stage_step ::
  "root_finder \<Rightarrow> 'g generator \<Rightarrow> tmcmc \<Rightarrow> real \<Rightarrow> real \<Rightarrow> int \<Rightarrow>
   run_state \<times> 'g \<times> int \<Rightarrow> run_state \<times> 'g \<times> int \<Rightarrow> bool"
  for root_scalar G self scale_factor0 target_acceptance_rate num_burn_in where
  "map_of (betas_dict st) k = Some beta \<Longrightarrow> beta < 1 \<Longrightarrow>
   map_of (samples_dict st) k = Some samples \<Longrightarrow>
   map_of (log_likelihoods_dict st) k = Some log_likelihoods \<Longrightarrow>
   map_of (log_target_density_values_dict st) k = Some log_target_density_values \<Longrightarrow>
   run_one_stage root_scalar G self samples log_likelihoods log_target_density_values beta g
     (log_likelihood_approximation self) (log_posterior_approximation self) scale_factor0
     target_acceptance_rate False num_burn_in
     = Some (Inr (result, g')) \<Longrightarrow>
   stage_step root_scalar G self scale_factor0 target_acceptance_rate num_burn_in (st, g, k)
     (store_stage st (k + 1) result, g', k + 1)"

text \<open>
  The stage that starts in a state of the loop raises \<open>e\<close>: one of the lookups misses
  the stage number, or \<^verbatim>\<open>_run_one_stage\<close> raises.
\<close>

definition stage_raises ::
  "root_finder \<Rightarrow> 'g generator \<Rightarrow> tmcmc \<Rightarrow> real \<Rightarrow> real \<Rightarrow> int \<Rightarrow>
   run_state \<Rightarrow> 'g \<Rightarrow> int \<Rightarrow> error \<Rightarrow> bool" where
  "stage_raises root_scalar G self scale_factor0 target_acceptance_rate num_burn_in st g k e =
     (case map_of (betas_dict st) k of
        None \<Rightarrow> e = KeyError k
      | Some beta \<Rightarrow>
          beta < 1 \<and>
          (case (map_of (samples_dict st) k, map_of (log_likelihoods_dict st) k,
                 map_of (log_target_density_values_dict st) k) of
             (Some samples, Some log_likelihoods, Some log_target_density_values) \<Rightarrow>
               run_one_stage root_scalar G self samples log_likelihoods
                 log_target_density_values beta g (log_likelihood_approximation self)
                 (log_posterior_approximation self) scale_factor0 target_acceptance_rate
                 False num_burn_in = Some (Inl e)
           | _ \<Rightarrow> e = KeyError k))"

text \<open>
  How the loop ends in a state: it returns the dictionaries as they are, because the
  beta of the stage is not below 1, or the stage that starts there raises and leaves
  them as they are.
\<close>

definition loop_outcome ::
  "root_finder \<Rightarrow> 'g generator \<Rightarrow> tmcmc \<Rightarrow> real \<Rightarrow> real \<Rightarrow> int \<Rightarrow>
   run_state \<Rightarrow> 'g \<Rightarrow> int \<Rightarrow> run_result \<Rightarrow> bool" where
  "loop_outcome root_scalar G self sf tar nbi st g k res =
     (case res of
        Returned st' \<Rightarrow> st' = st \<and> (\<exists>b. map_of (betas_dict st) k = Some b \<and> 1 \<le> b)
      | Raised e st' \<Rightarrow> st' = st \<and> stage_raises root_scalar G self sf tar nbi st g k e)"

text \<open>
  The entries of the five dictionaries under a stage number: the same in two states,
  and all present.
\<close>

definition same_entries :: "run_state \<Rightarrow> run_state \<Rightarrow> int \<Rightarrow> bool" where
  "same_entries st st' j =
     (map_of (samples_dict st') j = map_of (samples_dict st) j
      \<and> map_of (betas_dict st') j = map_of (betas_dict st) j
      \<and> map_of (log_likelihoods_dict st') j = map_of (log_likelihoods_dict st) j
      \<and> map_of (log_target_density_values_dict st') j
          = map_of (log_target_density_values_dict st) j
      \<and> map_of (log_evidence_dict st') j = map_of (log_evidence_dict st) j)"

definition has_stage :: "run_state \<Rightarrow> int \<Rightarrow> bool" where
  "has_stage st j =
     (map_of (samples_dict st) j \<noteq> None
      \<and> map_of (betas_dict st) j \<noteq> None
      \<and> map_of (log_likelihoods_dict st) j \<noteq> None
      \<and> map_of (log_target_density_values_dict st) j \<noteq> None
      \<and> map_of (log_evidence_dict st) j \<noteq> None)"

section \<open>A small population and a deterministic generator\<close>

text \<open>
  A generator whose draws are always the same: row 0, the zero vector and \<open>exp (- 1)\<close>;
  its state counts the draws.
\<close>

definition fixed_generator :: "nat generator" where
  "fixed_generator =
     \<lparr>choice = (\<lambda>g n p. (0, Suc g)),
      standard_normal = (\<lambda>g d. (replicate d 0, Suc g)),
      uniform = (\<lambda>g. (exp (- 1), Suc g))\<rparr>"

text \<open>Three samples in the plane, with covariance matrix \<open>diag(1, 3)\<close> under equal weights.\<close>

definition three_samples :: array2d where
  "three_samples = \<lparr>ncols = 2, rows = [[1, 1], [- 1, 1], [0, - 2]]\<rparr>"

text \<open>
  Evaluators: a log-likelihood that returns one value and one that returns two; a
  log-target-density so low that every proposal is rejected, and one equal to the current
  values, so that every proposal is accepted.
\<close>

definition scalar_log_likelihood :: "array2d \<Rightarrow> real list" where
  "scalar_log_likelihood x = [0]"

definition two_valued_log_likelihood :: "array2d \<Rightarrow> real list" where
  "two_valued_log_likelihood x = [0, 0]"

definition low_log_target_density :: "array2d \<Rightarrow> real list \<Rightarrow> real list" where
  "low_log_target_density x l = [- 2]"

definition flat_log_target_density :: "array2d \<Rightarrow> real list \<Rightarrow> real list" where
  "flat_log_target_density x l = [0]"

text \<open>A sampler with one step per row, no thinning, and the threshold \<open>t\<close>.\<close>

definition sampler ::
  "(array2d \<Rightarrow> real list) \<Rightarrow> (array2d \<Rightarrow> real list \<Rightarrow> real list) \<Rightarrow> real \<Rightarrow> tmcmc" where
  "sampler llf ltf t =
     \<lparr>log_likelihood_approximation = llf, log_posterior_approximation = ltf, num_steps = 1,
      threshold_cov = t, thinning_factor = 1, adapt_frequency = 50\<rparr>"

text \<open>The run state that holds the three samples as stage 0, with equal log-likelihoods.\<close>

definition three_run_state :: run_state where
  "three_run_state =
     \<lparr>samples_dict = [(0, three_samples)],
      betas_dict = [(0, 0)],
      log_likelihoods_dict = [(0, [0, 0, 0])],
      log_target_density_values_dict = [(0, [0, 0, 0])],
      log_evidence_dict = [(0, 0)]\<rparr>"

text \<open>What the stage on the three samples returns when every proposal is rejected.\<close>

definition three_stage_result :: "array2d \<times> real list \<times> real list \<times> real \<times> real" where
  "three_stage_result =
     (\<lparr>ncols = 2, rows = [[1, 1], [1, 1], [1, 1]]\<rparr>, [0, 0, 0], [0, 0, 0], 1, 0)"

text \<open>
  The variables of the stage on the three samples as the loops start, for the scale
  factor 1.
\<close>

definition three_stage_state :: "nat stage_state" where
  "three_stage_state =
     \<lparr>current_samples = three_samples,
      current_log_likelihoods = [0, 0, 0],
      current_log_target_density_values = [0, 0, 0],
      weights = [1 / 3, 1 / 3, 1 / 3],
      scale_factor = 1,
      cholesky_lower_triangular_matrix = [[1, 0], [0, sqrt 3]],
      num_accepts = 0,
      n_adapt = 1,
      step_count = 0,
      steps_per_row = 1,
      new_samples = \<lparr>ncols = 2, rows = [[0, 0], [0, 0], [0, 0]]\<rparr>,
      new_log_likelihoods = [0, 0, 0],
      new_log_target_density_values = [0, 0, 0],
      rng = 0\<rparr>"

text \<open>A single sample in the plane.\<close>

definition one_sample :: array2d where
  "one_sample = \<lparr>ncols = 2, rows = [[0, 0]]\<rparr>"

text \<open>
  A prior run of two stages on the three samples, whose log-likelihoods of stage 1 are
  the sums of the rows, and the evaluator that returns those sums.
\<close>

definition row_sum_log_likelihood :: "array2d \<Rightarrow> real list" where
  "row_sum_log_likelihood x = map sum_list (rows x)"

definition prior_samples :: "(int \<times> array2d) list" where
  "prior_samples = [(0, three_samples), (1, three_samples)]"

definition prior_betas :: "(int \<times> real) list" where
  "prior_betas = [(0, 0), (1, 1)]"

definition prior_log_likelihoods :: "(int \<times> real list) list" where
  "prior_log_likelihoods = [(0, [0, 0, 0]), (1, [2, 0, - 2])]"

text \<open>
  Four samples with log-likelihoods in two equal pairs: the coefficient of variation of
  their weights is rational at the increments 0, 1/2 and 1.
\<close>

definition four_samples :: array2d where
  "four_samples = \<lparr>ncols = 2, rows = [[1, 0], [- 1, 0], [0, 1], [0, - 1]]\<rparr>"

definition four_log_likelihoods :: "real list" where
  "four_log_likelihoods = [0, 0, 2 * ln 3, 2 * ln 3]"

text \<open>
  A prior run of two stages on seven samples on a line, whose stored log-likelihoods are
  the sums of the rows: the evaluator \<open>row_sum_log_likelihood\<close> reproduces them exactly.
\<close>

definition seven_samples :: array2d where
  "seven_samples = \<lparr>ncols = 1, rows = [[0], [1], [2], [3], [4], [5], [6]]\<rparr>"

definition seven_prior_samples :: "(int \<times> array2d) list" where
  "seven_prior_samples = [(0, seven_samples), (1, seven_samples)]"

definition seven_prior_log_likelihoods :: "(int \<times> real list) list" where
  "seven_prior_log_likelihoods = [(0, [0, 1, 2, 3, 4, 5, 6]), (1, [0, 1, 2, 3, 4, 5, 6])]"

text \<open>
  The stages 1 and 2 of a prior run on the four samples, with betas 1/2 and 1 and stored
  log-likelihoods 0, and an evaluator that gives the four log-likelihoods above: no
  stage has weights that are close to uniform.
\<close>

definition second_coordinate_log_likelihood :: "array2d \<Rightarrow> real list" where
  "second_coordinate_log_likelihood x = map (\<lambda>row. 2 * ln 3 * (row ! 1)\<^sup>2) (rows x)"

definition later_samples :: "(int \<times> array2d) list" where
  "later_samples = [(1, four_samples), (2, four_samples)]"

definition later_betas :: "(int \<times> real) list" where
  "later_betas = [(1, 1 / 2), (2, 1)]"

definition later_log_likelihoods :: "(int \<times> real list) list" where
  "later_log_likelihoods = [(1, [0, 0, 0, 0]), (2, [0, 0, 0, 0])]"

section \<open>Properties of the weight kernel\<close>

lemma np_max_nonempty: "xs \<noteq> [] \<Longrightarrow> np_max xs = Inr (Max (set xs))"
  by (simp add: np_max_def)

lemma sum_list_exp_pos:
  fixes xs :: "real list" and f :: "real \<Rightarrow> real"
  shows "xs \<noteq> [] \<Longrightarrow> 0 < sum_list (map (\<lambda>x. exp (f x)) xs)"
proof (induction xs)
  case Nil
  then show ?case by simp
next
  case (Cons a xs)
  show ?case
  proof (cases "xs = []")
    case True
    then show ?thesis by simp
  next
    case False
    with Cons.IH have "0 < sum_list (map (\<lambda>x. exp (f x)) xs)" by simp
    moreover have "0 < exp (f a)" by simp
    ultimately show ?thesis by (simp add: add_pos_pos)
  qed
qed

lemma sum_list_divide_const:
  fixes xs :: "real list" and g :: "real \<Rightarrow> real" and c :: real
  shows "sum_list (map (\<lambda>x. g x / c) xs) = sum_list (map g xs) / c"
  by (induction xs) (simp_all add: add_divide_distrib)

lemma sum_list_exp_shift:
  fixes xs :: "real list" and f :: "real \<Rightarrow> real" and m :: real
  shows "sum_list (map (\<lambda>x. exp (f x - m)) xs) = sum_list (map (\<lambda>x. exp (f x)) xs) / exp m"
  by (induction xs) (simp_all add: exp_diff add_divide_distrib)

text \<open>Over the reals the subtracted maximum cancels: the weights are a softmax.\<close>

lemma calculate_weights_softmax:
  assumes "l \<noteq> []"
  shows "calculate_weights b l =
           Inr (map (\<lambda>x. exp (b * x) / sum_list (map (\<lambda>y. exp (b * y)) l)) l)"
proof -
  define m where "m = Max (set (map (\<lambda>x. b * x) l))"
  have S: "sum_list (map (\<lambda>x. exp (b * x - m)) l) = sum_list (map (\<lambda>y. exp (b * y)) l) / exp m"
    by (rule sum_list_exp_shift)
  have "calculate_weights b l =
          Inr (map (\<lambda>x. exp (b * x - m) / sum_list (map (\<lambda>x. exp (b * x - m)) l)) l)"
    using assms by (simp add: calculate_weights_def np_max_def m_def Let_def comp_def)
  also have "(\<lambda>x. exp (b * x - m) / sum_list (map (\<lambda>x. exp (b * x - m)) l))
           = (\<lambda>x. exp (b * x) / sum_list (map (\<lambda>y. exp (b * y)) l))"
  proof
    fix x
    have "exp (b * x - m) / (sum_list (map (\<lambda>y. exp (b * y)) l) / exp m)
        = exp (b * x) / sum_list (map (\<lambda>y. exp (b * y)) l)"
      by (simp add: exp_diff)
    then show "exp (b * x - m) / sum_list (map (\<lambda>x. exp (b * x - m)) l)
        = exp (b * x) / sum_list (map (\<lambda>y. exp (b * y)) l)"
      by (simp only: S)
  qed
  finally show ?thesis .
qed

text \<open>
  Claim C5. For a non-empty vector of (finite) log-likelihoods, \<^verbatim>\<open>_calculate_weights\<close>
  returns weights, one per entry, each of them nonnegative, and their sum is exactly 1
  over real arithmetic. The claim's bound on the beta increment is not needed.
\<close>

theorem calculate_weights_normalized:
  assumes "l \<noteq> []"
  shows "\<exists>w. calculate_weights b l = Inr w \<and> length w = length l
            \<and> (\<forall>x \<in> set w. 0 \<le> x) \<and> sum_list w = 1"
proof -
  let ?S = "sum_list (map (\<lambda>y. exp (b * y)) l)"
  let ?w = "map (\<lambda>x. exp (b * x) / ?S) l"
  have pos: "0 < ?S" using assms by (rule sum_list_exp_pos)
  have "calculate_weights b l = Inr ?w" using assms by (rule calculate_weights_softmax)
  moreover have "length ?w = length l" by simp
  moreover have "\<forall>x \<in> set ?w. 0 \<le> x" using pos by (auto intro!: divide_nonneg_nonneg less_imp_le)
  moreover have "sum_list ?w = 1"
  proof -
    have "sum_list ?w = ?S / ?S" by (simp add: comp_def sum_list_divide_const)
    with pos show ?thesis by simp
  qed
  ultimately show ?thesis by blast
qed

theorem calculate_weights_normalized_witness:
  "[0, 0] \<noteq> ([] :: real list)
   \<and> (\<exists>w. calculate_weights 1 [0, 0] = Inr w \<and> length w = length [0 :: real, 0]
            \<and> (\<forall>x \<in> set w. 0 \<le> x) \<and> sum_list w = 1)"
  using calculate_weights_normalized [of "[0, 0]" 1] by simp

section \<open>Properties of the log-evidence increment\<close>

lemma logsumexp_ln_sum:
  assumes "a \<noteq> []"
  shows "logsumexp a = Inr (ln (sum_list (map exp a)))"
proof -
  define m where "m = Max (set a)"
  have pos: "0 < sum_list (map (\<lambda>x. exp x) a)"
    using assms by (rule sum_list_exp_pos [where f = "\<lambda>x. x"])
  have "sum_list (map (\<lambda>x. exp (x - m)) a) = sum_list (map (\<lambda>x. exp x) a) / exp m"
    by (rule sum_list_exp_shift [where f = "\<lambda>x. x"])
  then have "ln (sum_list (map (\<lambda>x. exp (x - m)) a)) + m = ln (sum_list (map (\<lambda>x. exp x) a))"
    using pos by (simp add: ln_div)
  then show ?thesis
    using assms by (simp add: logsumexp_def np_max_def m_def)
qed

text \<open>
  Claim C9. For every beta increment \<open>b\<close> and every non-empty log-likelihood vector \<open>l\<close>
  of length \<open>N\<close>, the log-evidence increment is the logarithm of the sum of the
  \<open>exp (b * l\<^sub>i)\<close>, minus \<open>ln N\<close>: the maximum that the library's \<^verbatim>\<open>logsumexp\<close> takes out
  before summing does not change the value.
\<close>

theorem calculate_log_evidence_closed_form:
  assumes "l \<noteq> []"
  shows "calculate_log_evidence b l =
           Inr (ln (sum_list (map (\<lambda>x. exp (b * x)) l)) - ln (real (length l)))"
  using assms by (simp add: calculate_log_evidence_def logsumexp_ln_sum comp_def)

theorem calculate_log_evidence_closed_form_witness:
  "[0, 0] \<noteq> ([] :: real list)
   \<and> calculate_log_evidence 3 [0, 0] =
       Inr (ln (sum_list (map (\<lambda>x. exp (3 * x)) [0, 0])) - ln (real (length [0 :: real, 0])))"
  using calculate_log_evidence_closed_form [of "[0, 0]" 3] by simp

section \<open>Properties of the temperature stepper\<close>

lemma nanmean_replicate: "0 < n \<Longrightarrow> nanmean (replicate n v) = v"
  by (simp add: nanmean_def sum_list_replicate)

lemma cov_weights_replicate: "0 < n \<Longrightarrow> cov_weights (replicate n v) = 0"
  by (simp add: cov_weights_def nanstd_def nanmean_replicate)

lemma calculate_weights_replicate:
  assumes "0 < n"
  shows "calculate_weights b (replicate n c) = Inr (replicate n (1 / real n))"
  using assms by (simp add: calculate_weights_def np_max_def Let_def sum_list_replicate)

lemma cov_objective_replicate:
  assumes "0 < n"
  shows "cov_objective tau (replicate n c) b = Inr (- tau)"
  using assms by (simp add: cov_objective_def calculate_weights_replicate cov_weights_replicate)

text \<open>
  Claim C6. For a constant log-likelihood vector (\<open>n > 0\<close> copies of \<open>c\<close>) the weights at
  every beta increment have coefficient of variation 0, the objective has the same sign
  at both ends of the bracket, and \<^verbatim>\<open>_increment_beta\<close> returns exactly 1, whatever the
  starting beta, the threshold and the root finder.
\<close>

theorem increment_beta_constant_vector:
  assumes "0 < n"
  shows "(\<exists>w. calculate_weights beta_increment (replicate n c) = Inr w \<and> cov_weights w = 0)
       \<and> (\<exists>f0 f1. cov_objective tau (replicate n c) 0 = Inr f0
              \<and> cov_objective tau (replicate n c) (1 - beta) = Inr f1 \<and> sgn f0 = sgn f1)
       \<and> increment_beta root_scalar (replicate n c) beta tau = Some (Inr 1)"
  using assms
  by (simp add: calculate_weights_replicate cov_weights_replicate cov_objective_replicate
      increment_beta_def)

theorem increment_beta_constant_vector_witness:
  "(0::nat) < 3
   \<and> (\<exists>w. calculate_weights (1 / 2) (replicate 3 (-7)) = Inr w \<and> cov_weights w = 0)
   \<and> increment_beta bisect (replicate 3 (-7)) (1 / 2) default_threshold_cov = Some (Inr 1)"
  using increment_beta_constant_vector [of 3 "1 / 2" "-7" default_threshold_cov "1 / 2" bisect]
  by simp

subsection \<open>The shrinkage loop returns\<close>

lemma isCont_sum_list_map:
  fixes f :: "real \<Rightarrow> real \<Rightarrow> real"
  assumes "\<And>x. x \<in> set l \<Longrightarrow> isCont (\<lambda>b. f b x) a"
  shows "isCont (\<lambda>b. sum_list (map (f b) l)) a"
  using assms by (induction l) simp_all

lemma calculate_weights_softmax':
  "l \<noteq> [] \<Longrightarrow> calculate_weights b l = Inr (map (softmax l b) l)"
  by (simp add: calculate_weights_softmax softmax_def [abs_def])

lemma nanmean_softmax:
  assumes "l \<noteq> []"
  shows "nanmean (map (softmax l b) l) = 1 / real (length l)"
proof -
  have "0 < sum_list (map (\<lambda>y. exp (b * y)) l)" using assms by (rule sum_list_exp_pos)
  then have "sum_list (map (softmax l b) l) = 1"
    by (simp add: softmax_def [abs_def] sum_list_divide_const)
  then show ?thesis by (simp add: nanmean_def)
qed

lemma cov_weights_softmax:
  assumes "l \<noteq> []"
  shows "cov_weights (map (softmax l b) l) =
    sqrt (sum_list (map (\<lambda>x. (softmax l b x - 1 / real (length l))\<^sup>2) l) / real (length l))
      * real (length l)"
  using assms
  by (simp add: cov_weights_def nanstd_def nanmean_softmax comp_def) (simp add: nanmean_def)

lemma softmax_zero: "l \<noteq> [] \<Longrightarrow> softmax l 0 x = 1 / real (length l)"
proof -
  have "sum_list (map (\<lambda>y. 1::real) l) = real (length l)" by (induction l) simp_all
  then show ?thesis by (simp add: softmax_def)
qed

lemma cov_weights_softmax_zero:
  assumes "l \<noteq> []"
  shows "cov_weights (map (softmax l 0) l) = 0"
  using assms by (simp add: cov_weights_softmax softmax_zero)

lemma isCont_softmax:
  assumes "l \<noteq> []"
  shows "isCont (\<lambda>b. softmax l b x) a"
proof -
  have "0 < sum_list (map (\<lambda>y. exp (a * y)) l)" using assms by (rule sum_list_exp_pos)
  moreover have "isCont (\<lambda>b. sum_list (map (\<lambda>y. exp (b * y)) l)) a"
    by (rule isCont_sum_list_map) (intro continuous_intros)
  ultimately show ?thesis
    unfolding softmax_def by (intro continuous_intros) simp_all
qed

lemma isCont_cov_weights_softmax:
  assumes "l \<noteq> []"
  shows "isCont (\<lambda>b. cov_weights (map (softmax l b) l)) a"
proof -
  have "isCont (\<lambda>b. sqrt (sum_list (map (\<lambda>x. (softmax l b x - 1 / real (length l))\<^sup>2) l)
           / real (length l)) * real (length l)) a"
    by (intro continuous_intros isCont_sum_list_map isCont_softmax assms) (use assms in simp)
  then show ?thesis using assms by (simp add: cov_weights_softmax)
qed

lemma cov_weights_eventually_small:
  assumes "l \<noteq> []" and "0 < tau"
  shows "\<exists>k. cov_weights (map (softmax l ((99 / 100) ^ k * b0)) l) \<le> tau"
proof -
  have "(\<lambda>k. ((99 / 100 :: real)) ^ k) \<longlonglongrightarrow> 0"
    by (intro LIMSEQ_power_zero) simp
  then have "(\<lambda>k. (99 / 100) ^ k * b0) \<longlonglongrightarrow> 0 * b0"
    by (rule tendsto_mult_right)
  then have lim: "(\<lambda>k. (99 / 100) ^ k * b0) \<longlonglongrightarrow> 0" by simp
  have "(\<lambda>k. cov_weights (map (softmax l ((99 / 100) ^ k * b0)) l))
          \<longlonglongrightarrow> cov_weights (map (softmax l 0) l)"
    using isCont_cov_weights_softmax [OF assms(1), of 0] lim
    by (rule isCont_tendsto_compose)
  then have "(\<lambda>k. cov_weights (map (softmax l ((99 / 100) ^ k * b0)) l)) \<longlonglongrightarrow> 0"
    using assms(1) by (simp add: cov_weights_softmax_zero)
  then have "eventually (\<lambda>k. cov_weights (map (softmax l ((99 / 100) ^ k * b0)) l) < tau) sequentially"
    using assms(2) by (rule order_tendstoD)
  then obtain k where "cov_weights (map (softmax l ((99 / 100) ^ k * b0)) l) < tau"
    by (auto simp: eventually_sequentially)
  then show ?thesis by (auto intro: less_imp_le)
qed

lemma shrink_beta_increment_returns_aux:
  assumes "l \<noteq> []"
  shows "cov_weights (map (softmax l ((99 / 100) ^ k * b)) l) \<le> tau \<Longrightarrow>
         \<exists>j. shrink_beta_increment tau l b = Some (Inr ((99 / 100) ^ j * b))"
proof (induction k arbitrary: b)
  case 0
  then have "shrink_beta_increment tau l b = Some (Inr b)"
    using assms by (subst shrink_beta_increment.simps) (simp add: calculate_weights_softmax')
  then have "shrink_beta_increment tau l b = Some (Inr ((99 / 100) ^ 0 * b))" by simp
  then show ?case by blast
next
  case (Suc k)
  show ?case
  proof (cases "cov_weights (map (softmax l b) l) > tau")
    case False
    then have "shrink_beta_increment tau l b = Some (Inr b)"
      using assms by (subst shrink_beta_increment.simps) (simp add: calculate_weights_softmax')
    then have "shrink_beta_increment tau l b = Some (Inr ((99 / 100) ^ 0 * b))" by simp
    then show ?thesis by blast
  next
    case True
    then have unfold: "shrink_beta_increment tau l b = shrink_beta_increment tau l (99 / 100 * b)"
      using assms by (subst shrink_beta_increment.simps) (simp add: calculate_weights_softmax')
    have eq: "(99 / 100 :: real) ^ i * (99 / 100 * b) = (99 / 100) ^ Suc i * b" for i
      by simp
    have "cov_weights (map (softmax l ((99 / 100) ^ k * (99 / 100 * b))) l) \<le> tau"
      unfolding eq using Suc.prems .
    from Suc.IH [OF this] obtain j where
      "shrink_beta_increment tau l (99 / 100 * b) = Some (Inr ((99 / 100) ^ j * (99 / 100 * b)))"
      by blast
    then have "shrink_beta_increment tau l b = Some (Inr ((99 / 100) ^ Suc j * b))"
      unfolding eq unfold .
    then show ?thesis by blast
  qed
qed

lemma shrink_beta_increment_returns:
  assumes "l \<noteq> []" and "0 < tau"
  shows "\<exists>j. shrink_beta_increment tau l b = Some (Inr ((99 / 100) ^ j * b))"
  using cov_weights_eventually_small [OF assms] shrink_beta_increment_returns_aux [OF assms(1)]
  by blast

subsection \<open>The bisection solver keeps to its bracket\<close>

lemma bisect_iter_in_bracket:
  assumes "\<And>x. \<exists>y. f x = Inr y" and "0 \<le> dm"
  shows "\<exists>c r. bisect_iter n f fa xa dm = Inr (c, r) \<and> xa \<le> r \<and> r \<le> xa + dm"
  using assms(2)
proof (induction n arbitrary: xa dm)
  case 0
  then show ?case by auto
next
  case (Suc n)
  obtain fm where fm: "f (xa + dm * (1 / 2)) = Inr fm" using assms(1) by blast
  let ?xm = "xa + dm * (1 / 2)"
  let ?xa' = "if fm * fa \<ge> 0 then ?xm else xa"
  show ?case
  proof (cases "fm = 0 \<or> \<bar>dm * (1 / 2)\<bar> < bisect_xtol + bisect_rtol * \<bar>?xm\<bar>")
    case True
    then have "bisect_iter (Suc n) f fa xa dm = Inr (True, ?xm)"
      using fm by (simp add: Let_def)
    moreover have "xa \<le> ?xm" "?xm \<le> xa + dm" using Suc.prems by simp_all
    ultimately show ?thesis by blast
  next
    case False
    then have eq: "bisect_iter (Suc n) f fa xa dm = bisect_iter n f fa ?xa' (dm * (1 / 2))"
      using fm by (simp add: Let_def)
    have "0 \<le> dm * (1 / 2)" using Suc.prems by simp
    from Suc.IH [OF this, of ?xa'] obtain c r where
      r: "bisect_iter n f fa ?xa' (dm * (1 / 2)) = Inr (c, r)" "?xa' \<le> r" "r \<le> ?xa' + dm * (1 / 2)"
      by blast
    have "xa \<le> r" "r \<le> xa + dm" using r(2,3) Suc.prems by (auto split: if_splits)
    with eq r(1) show ?thesis by simp
  qed
qed

lemma bisect_bracketing: "bracketing_root_finder bisect"
  unfolding bracketing_root_finder_def
proof (intro allI impI)
  fix f :: "real \<Rightarrow> error + real" and a b fa fb :: real
  assume ab: "a \<le> b" and tot: "\<forall>x. \<exists>y. f x = Inr y"
    and fa: "f a = Inr fa" and fb: "f b = Inr fb" and sg: "sgn fa \<noteq> sgn fb"
  show "\<exists>converged r. bisect f a b = Inr (converged, r) \<and> (converged \<longrightarrow> a \<le> r \<and> r \<le> b)"
  proof (cases "fa = 0 \<or> fb = 0")
    case True
    then show ?thesis using ab fa fb by (auto simp: bisect_def)
  next
    case False
    then have "(fa < 0) \<noteq> (fb < 0)" using sg by (auto simp: sgn_real_def split: if_splits)
    then have eq: "bisect f a b = bisect_iter 100 f fa a (b - a)"
      using False fa fb by (simp add: bisect_def)
    have "0 \<le> b - a" using ab by simp
    from bisect_iter_in_bracket [of f "b - a" 100 fa a, OF _ this] tot
    obtain c r where "bisect_iter 100 f fa a (b - a) = Inr (c, r)" "a \<le> r" "r \<le> a + (b - a)"
      by blast
    with eq show ?thesis by simp
  qed
qed

subsection \<open>The new beta lies between the old one and 1\<close>

lemma cov_objective_total:
  "l \<noteq> [] \<Longrightarrow> cov_objective tau l b = Inr (cov_weights (map (softmax l b) l) - tau)"
  by (simp add: cov_objective_def calculate_weights_softmax')

lemma increment_beta_returns_in_range:
  assumes l: "l \<noteq> []" and beta: "beta \<le> 1" and tau: "0 < tau"
    and rs: "bracketing_root_finder root_scalar"
  shows "\<exists>new_beta. increment_beta root_scalar l beta tau = Some (Inr new_beta)
            \<and> beta \<le> new_beta \<and> new_beta \<le> 1"
proof -
  let ?f = "cov_objective tau l"
  let ?a0 = "cov_weights (map (softmax l 0) l) - tau"
  let ?a1 = "cov_weights (map (softmax l (1 - beta)) l) - tau"
  have at0: "?f 0 = Inr ?a0" and at1: "?f (1 - beta) = Inr ?a1"
    using l by (simp_all add: cov_objective_total)
  show ?thesis
  proof (cases "sgn ?a0 = sgn ?a1")
    case True
    then have "increment_beta root_scalar l beta tau = Some (Inr 1)"
      using at0 at1 by (simp add: increment_beta_def)
    then show ?thesis using beta by simp
  next
    case False
    have tot: "\<forall>x. \<exists>y. ?f x = Inr y" using l by (simp add: cov_objective_total)
    have "0 \<le> 1 - beta" using beta by simp
    with rs tot at0 at1 False obtain c r where
      r: "root_scalar ?f 0 (1 - beta) = Inr (c, r)" "c \<longrightarrow> 0 \<le> r \<and> r \<le> 1 - beta"
      unfolding bracketing_root_finder_def by blast
    show ?thesis
    proof (cases c)
      case True
      then have "increment_beta root_scalar l beta tau = Some (Inr (min (beta + r) 1))"
        using at0 at1 False r(1) by (simp add: increment_beta_def)
      moreover have "beta \<le> min (beta + r) 1" using True r(2) beta by simp
      ultimately show ?thesis by simp
    next
      case notc: False
      from shrink_beta_increment_returns [OF l tau, of "1 - beta"] obtain j where
        j: "shrink_beta_increment tau l (1 - beta) = Some (Inr ((99 / 100) ^ j * (1 - beta)))"
        by blast
      have "increment_beta root_scalar l beta tau
              = Some (Inr (min (beta + (99 / 100) ^ j * (1 - beta)) 1))"
        using at0 at1 False r(1) notc j by (simp add: increment_beta_def)
      moreover have "0 \<le> (99 / 100 :: real) ^ j * (1 - beta)" using beta by simp
      then have "beta \<le> min (beta + (99 / 100) ^ j * (1 - beta)) 1" using beta by simp
      ultimately show ?thesis by simp
    qed
  qed
qed

lemma shrink_beta_increment_result_aux:
  assumes "shrink_beta_increment tau l b = Some y"
  shows "\<forall>r. y = Inr r \<longrightarrow> (\<exists>j. r = (99 / 100) ^ j * b)"
proof (rule shrink_beta_increment.raw_induct
    [where P = "\<lambda>tau l b y. \<forall>r. y = Inr r \<longrightarrow> (\<exists>j. r = (99 / 100) ^ j * b)", OF _ assms])
  fix S :: "real \<Rightarrow> real list \<Rightarrow> real \<Rightarrow> (error + real) option"
    and tau l b and y :: "error + real"
  assume IH: "\<And>tau l b y. S tau l b = Some y \<Longrightarrow>
                 \<forall>r. y = Inr r \<longrightarrow> (\<exists>j. r = (99 / 100) ^ j * b)"
    and body: "(case calculate_weights b l of
                  Inl e \<Rightarrow> Some (Inl e)
                | Inr w \<Rightarrow>
                    if tau < cov_weights w then S tau l (99 / 10\<^sup>2 * b)
                    else Some (Inr b)) = Some y"
  show "\<forall>r. y = Inr r \<longrightarrow> (\<exists>j. r = (99 / 100) ^ j * b)"
  proof (cases "calculate_weights b l")
    case (Inl e)
    with body show ?thesis by auto
  next
    case (Inr w)
    show ?thesis
    proof (cases "tau < cov_weights w")
      case True
      with body Inr have "S tau l (99 / 100 * b) = Some y" by simp
      from IH [OF this] have "\<forall>r. y = Inr r \<longrightarrow> (\<exists>j. r = (99 / 100) ^ j * (99 / 100 * b))" .
      moreover have "(99 / 100 :: real) ^ j * (99 / 100 * b) = (99 / 100) ^ Suc j * b" for j
        by simp
      ultimately show ?thesis by metis
    next
      case False
      with body Inr have "y = Inr ((99 / 100) ^ 0 * b)" by simp
      then show ?thesis by blast
    qed
  qed
qed

lemma shrink_beta_increment_result:
  "shrink_beta_increment tau l b = Some (Inr r) \<Longrightarrow> \<exists>j. r = (99 / 100) ^ j * b"
  using shrink_beta_increment_result_aux by blast

lemma increment_beta_result_in_range:
  assumes res: "increment_beta root_scalar l beta tau = Some (Inr new_beta)"
    and beta: "beta \<le> 1" and rs: "bracketing_root_finder root_scalar"
  shows "beta \<le> new_beta \<and> new_beta \<le> 1"
proof -
  have l: "l \<noteq> []"
  proof
    assume "l = []"
    then have "increment_beta root_scalar l beta tau
                 = Some (Inl (ValueError ''zero-size array to reduction operation maximum which has no identity''))"
      by (simp add: increment_beta_def cov_objective_def calculate_weights_def np_max_def)
    with res show False by simp
  qed
  let ?f = "cov_objective tau l"
  let ?a0 = "cov_weights (map (softmax l 0) l) - tau"
  let ?a1 = "cov_weights (map (softmax l (1 - beta)) l) - tau"
  have at0: "?f 0 = Inr ?a0" and at1: "?f (1 - beta) = Inr ?a1"
    using l by (simp_all add: cov_objective_total)
  show ?thesis
  proof (cases "sgn ?a0 = sgn ?a1")
    case True
    then have "increment_beta root_scalar l beta tau = Some (Inr 1)"
      using at0 at1 by (simp add: increment_beta_def)
    with res beta show ?thesis by simp
  next
    case False
    have tot: "\<forall>x. \<exists>y. ?f x = Inr y" using l by (simp add: cov_objective_total)
    have "0 \<le> 1 - beta" using beta by simp
    with rs tot at0 at1 False obtain c r where
      r: "root_scalar ?f 0 (1 - beta) = Inr (c, r)" "c \<longrightarrow> 0 \<le> r \<and> r \<le> 1 - beta"
      unfolding bracketing_root_finder_def by blast
    show ?thesis
    proof (cases c)
      case True
      then have "increment_beta root_scalar l beta tau = Some (Inr (min (beta + r) 1))"
        using at0 at1 False r(1) by (simp add: increment_beta_def)
      with res have "new_beta = min (beta + r) 1" by simp
      then show ?thesis using True r(2) beta by simp
    next
      case notc: False
      have eq: "increment_beta root_scalar l beta tau =
             (case shrink_beta_increment tau l (1 - beta) of
                None \<Rightarrow> None
              | Some (Inl e) \<Rightarrow> Some (Inl e)
              | Some (Inr beta_increment) \<Rightarrow> Some (Inr (min (beta + beta_increment) 1)))"
        using at0 at1 False r(1) notc by (simp add: increment_beta_def)
      with res obtain bi where bi: "shrink_beta_increment tau l (1 - beta) = Some (Inr bi)"
        and nb: "new_beta = min (beta + bi) 1"
        by (auto split: option.splits sum.splits)
      from shrink_beta_increment_result [OF bi] obtain j where "bi = (99 / 100) ^ j * (1 - beta)"
        by blast
      moreover have "0 \<le> (99 / 100 :: real) ^ j * (1 - beta)" using beta by simp
      ultimately show ?thesis using nb beta by simp
    qed
  qed
qed

section \<open>Properties of the stage driver\<close>

lemma run_loop_stops:
  "map_of (betas_dict st) k = Some b \<Longrightarrow> 1 \<le> b \<Longrightarrow>
   run_loop root_scalar G self sf tar nbi st g k = Some (Returned st)"
  by (subst run_loop.simps) simp

lemma run_loop_step:
  assumes "stage_step root_scalar G self sf tar nbi (st, g, k) (st', g', k')"
  shows "run_loop root_scalar G self sf tar nbi st g k
           = run_loop root_scalar G self sf tar nbi st' g' k'"
  using assms by (cases rule: stage_step.cases) (subst run_loop.simps, simp)

lemma run_loop_outcome:
  assumes "run_loop root_scalar G self sf tar nbi st g k = Some res"
  shows "\<exists>st' g' k'. (stage_step root_scalar G self sf tar nbi)\<^sup>*\<^sup>* (st, g, k) (st', g', k')
            \<and> loop_outcome root_scalar G self sf tar nbi st' g' k' res"
proof (rule run_loop.raw_induct
    [where P = "\<lambda>root_scalar G self sf tar nbi st g k res.
       \<exists>st' g' k'. (stage_step root_scalar G self sf tar nbi)\<^sup>*\<^sup>* (st, g, k) (st', g', k')
            \<and> loop_outcome root_scalar G self sf tar nbi st' g' k' res", OF _ assms])
  fix S :: "root_finder \<Rightarrow> 'g generator \<Rightarrow> tmcmc \<Rightarrow> real \<Rightarrow> real \<Rightarrow> int \<Rightarrow> run_state \<Rightarrow> 'g \<Rightarrow> int
              \<Rightarrow> run_result option"
    and root_scalar G self sf tar nbi st g k res
  assume IH: "\<And>root_scalar G self sf tar nbi st g k res.
      S root_scalar G self sf tar nbi st g k = Some res \<Longrightarrow>
      \<exists>st' g' k'. (stage_step root_scalar G self sf tar nbi)\<^sup>*\<^sup>* (st, g, k) (st', g', k')
            \<and> loop_outcome root_scalar G self sf tar nbi st' g' k' res"
  assume body: "(case map_of (betas_dict st) k of
        None \<Rightarrow> Some (Raised (KeyError k) st)
      | Some beta \<Rightarrow>
          if beta < 1 then
            (case map_of (samples_dict st) k of
               None \<Rightarrow> Some (Raised (KeyError k) st)
             | Some samples \<Rightarrow>
            (case map_of (log_likelihoods_dict st) k of
               None \<Rightarrow> Some (Raised (KeyError k) st)
             | Some log_likelihoods \<Rightarrow>
            (case map_of (log_target_density_values_dict st) k of
               None \<Rightarrow> Some (Raised (KeyError k) st)
             | Some log_target_density_values \<Rightarrow>
            (case run_one_stage root_scalar G self samples log_likelihoods
                    log_target_density_values beta g (log_likelihood_approximation self)
                    (log_posterior_approximation self) sf tar False nbi of
               None \<Rightarrow> None
             | Some (Inl e) \<Rightarrow> Some (Raised e st)
             | Some (Inr (result, g')) \<Rightarrow>
                 S root_scalar G self sf tar nbi (store_stage st (k + 1) result) g' (k + 1)))))
          else Some (Returned st)) = Some res"
  let ?goal = "\<exists>st' g' k'. (stage_step root_scalar G self sf tar nbi)\<^sup>*\<^sup>* (st, g, k) (st', g', k')
            \<and> loop_outcome root_scalar G self sf tar nbi st' g' k' res"
  have here: "loop_outcome root_scalar G self sf tar nbi st g k res \<Longrightarrow> ?goal"
    by blast
  show ?goal
  proof (cases "map_of (betas_dict st) k")
    case None
    with body show ?thesis
      by (intro here) (auto simp: loop_outcome_def stage_raises_def)
  next
    case (Some beta)
    note beta = this
    show ?thesis
    proof (cases "beta < 1")
      case False
      with body beta show ?thesis
        by (intro here) (auto simp: loop_outcome_def)
    next
      case True
      show ?thesis
      proof (cases "map_of (samples_dict st) k = None \<or> map_of (log_likelihoods_dict st) k = None
                    \<or> map_of (log_target_density_values_dict st) k = None")
        case True
        with body beta \<open>beta < 1\<close> show ?thesis
          by (intro here) (auto simp: loop_outcome_def stage_raises_def split: option.splits)
      next
        case False
        then obtain samples ll lt where
          lk: "map_of (samples_dict st) k = Some samples"
              "map_of (log_likelihoods_dict st) k = Some ll"
              "map_of (log_target_density_values_dict st) k = Some lt"
          by auto
        let ?stage = "run_one_stage root_scalar G self samples ll lt beta g
                        (log_likelihood_approximation self) (log_posterior_approximation self)
                        sf tar False nbi"
        show ?thesis
        proof (cases ?stage)
          case None
          with body beta \<open>beta < 1\<close> lk show ?thesis by simp
        next
          case (Some r)
          show ?thesis
          proof (cases r)
            case (Inl e)
            with body beta \<open>beta < 1\<close> lk Some show ?thesis
              by (intro here) (auto simp: loop_outcome_def stage_raises_def)
          next
            case (Inr p)
            obtain result g' where p: "p = (result, g')" by (cases p)
            have rec: "S root_scalar G self sf tar nbi (store_stage st (k + 1) result) g' (k + 1)
                         = Some res"
              using body beta \<open>beta < 1\<close> lk Some Inr p by simp
            have step: "stage_step root_scalar G self sf tar nbi (st, g, k)
                          (store_stage st (k + 1) result, g', k + 1)"
              using beta \<open>beta < 1\<close> lk Some Inr p by (intro stage_step.intros) auto
            from IH [OF rec] obtain st' g'' k' where
              "(stage_step root_scalar G self sf tar nbi)\<^sup>*\<^sup>*
                 (store_stage st (k + 1) result, g', k + 1) (st', g'', k')"
              "loop_outcome root_scalar G self sf tar nbi st' g'' k' res"
              by blast
            with step show ?thesis
              by (meson converse_rtranclp_into_rtranclp)
          qed
        qed
      qed
    qed
  qed
qed

subsection \<open>What complete stages change\<close>

lemma store_stage_lookups:
  "map_of (samples_dict (store_stage st j (ns, nl, nt, nb, le))) i
     = (if i = j then Some ns else map_of (samples_dict st) i)"
  "map_of (betas_dict (store_stage st j (ns, nl, nt, nb, le))) i
     = (if i = j then Some nb else map_of (betas_dict st) i)"
  "map_of (log_likelihoods_dict (store_stage st j (ns, nl, nt, nb, le))) i
     = (if i = j then Some nl else map_of (log_likelihoods_dict st) i)"
  "map_of (log_target_density_values_dict (store_stage st j (ns, nl, nt, nb, le))) i
     = (if i = j then Some nt else map_of (log_target_density_values_dict st) i)"
  "map_of (log_evidence_dict (store_stage st j (ns, nl, nt, nb, le))) i
     = (if i = j then Some le else map_of (log_evidence_dict st) i)"
  by (simp_all add: store_stage_def update_conv')

lemma same_entries_store_stage: "i \<noteq> j \<Longrightarrow> same_entries st (store_stage st j r) i"
  by (cases r) (simp add: same_entries_def store_stage_lookups)

lemma has_stage_store_stage: "has_stage (store_stage st j r) j"
  by (cases r) (simp add: has_stage_def store_stage_lookups)

lemma has_stage_store_stage_other: "has_stage st i \<Longrightarrow> has_stage (store_stage st j r) i"
  by (cases r) (simp add: has_stage_def store_stage_lookups)

lemma same_entries_trans:
  "same_entries st st' i \<Longrightarrow> same_entries st' st'' i \<Longrightarrow> same_entries st st'' i"
  by (simp add: same_entries_def)

lemma stage_steps_frame:
  assumes "(stage_step root_scalar G self sf tar nbi)\<^sup>*\<^sup>* x y"
  shows "snd (snd x) \<le> snd (snd y)
       \<and> (\<forall>j. j \<le> snd (snd x) \<or> snd (snd y) < j \<longrightarrow> same_entries (fst x) (fst y) j)
       \<and> (\<forall>j. snd (snd x) < j \<and> j \<le> snd (snd y) \<longrightarrow> has_stage (fst y) j)"
  using assms
proof (induction rule: rtranclp_induct)
  case base
  show ?case by (auto simp: same_entries_def)
next
  case (step y z)
  from step.hyps(2) obtain st g k result g' where
    y: "y = (st, g, k)" and z: "z = (store_stage st (k + 1) result, g', k + 1)"
    by (cases rule: stage_step.cases) blast
  show ?case
  proof (intro conjI allI impI)
    show "snd (snd x) \<le> snd (snd z)" using step.IH y z by simp
  next
    fix j assume "j \<le> snd (snd x) \<or> snd (snd z) < j"
    then have j: "j \<le> snd (snd x) \<or> k + 1 < j" using z by simp
    then have "j \<noteq> k + 1" using step.IH y by auto
    then have "same_entries st (store_stage st (k + 1) result) j"
      by (rule same_entries_store_stage)
    moreover have "same_entries (fst x) st j" using step.IH y j by auto
    ultimately show "same_entries (fst x) (fst z) j"
      using z by (auto intro: same_entries_trans)
  next
    fix j assume "snd (snd x) < j \<and> j \<le> snd (snd z)"
    then have j: "snd (snd x) < j" "j \<le> k + 1" using z by simp_all
    show "has_stage (fst z) j"
    proof (cases "j = k + 1")
      case True
      then show ?thesis using z by (simp add: has_stage_store_stage)
    next
      case False
      with j have "j \<le> k" by simp
      with j(1) step.IH y have "has_stage st j" by simp
      then show ?thesis using z by (simp add: has_stage_store_stage_other)
    qed
  qed
qed

lemma rejuvenate_result:
  assumes "rejuvenate G self samples l lt beta g llf ltf sf tar dt bi new_beta
             = Inr ((ns, nl, nt, nb, le), g')"
  shows "nb = new_beta \<and> calculate_log_evidence (new_beta - beta) l = Inr le"
  using assms by (auto simp: rejuvenate_def Let_def split: sum.splits option.splits)

lemma run_one_stage_new_beta:
  assumes "run_one_stage root_scalar G self samples l lt beta g llf ltf sf tar dt bi
             = Some (Inr ((ns, nl, nt, nb, le), g'))"
  shows "increment_beta root_scalar l beta default_threshold_cov = Some (Inr nb)"
  using assms rejuvenate_result
  by (fastforce simp: run_one_stage_def Let_def split: option.splits sum.splits if_splits)

lemma stage_step_beta:
  assumes "stage_step root_scalar G self sf tar nbi (st, g, k) z"
    and "bracketing_root_finder root_scalar"
  shows "\<exists>b b'. map_of (betas_dict st) k = Some b \<and> map_of (betas_dict (fst z)) k = Some b
            \<and> map_of (betas_dict (fst z)) (k + 1) = Some b' \<and> b < 1 \<and> b \<le> b' \<and> b' \<le> 1"
  using assms(1)
proof (cases rule: stage_step.cases)
  case (1 beta samples log_likelihoods log_target_density_values result g')
  obtain ns nl nt nb le where r: "result = (ns, nl, nt, nb, le)" by (cases result)
  from 1(7) r have "increment_beta root_scalar log_likelihoods beta default_threshold_cov = Some (Inr nb)"
    by (intro run_one_stage_new_beta) simp
  from increment_beta_result_in_range [OF this _ assms(2)] 1(3) have "beta \<le> nb" "nb \<le> 1"
    by simp_all
  with 1 r show ?thesis by (simp add: store_stage_lookups)
qed

lemma stage_steps_betas:
  assumes "(stage_step root_scalar G self sf tar nbi)\<^sup>*\<^sup>* x y"
    and rs: "bracketing_root_finder root_scalar"
  shows "\<forall>j. snd (snd x) \<le> j \<and> j < snd (snd y) \<longrightarrow>
           (\<exists>b b'. map_of (betas_dict (fst y)) j = Some b
              \<and> map_of (betas_dict (fst y)) (j + 1) = Some b' \<and> b < 1 \<and> b \<le> b' \<and> b' \<le> 1)"
  using assms(1)
proof (induction rule: rtranclp_induct)
  case base
  show ?case by auto
next
  case (step y z)
  from step.hyps(2) obtain st g k result g' where
    y: "y = (st, g, k)" and z: "z = (store_stage st (k + 1) result, g', k + 1)"
    by (cases rule: stage_step.cases) blast
  obtain ns nl nt nb le where r: "result = (ns, nl, nt, nb, le)" by (cases result)
  from stage_step_beta [OF step.hyps(2) [unfolded y] rs]
  have last: "\<exists>b b'. map_of (betas_dict (fst z)) k = Some b
            \<and> map_of (betas_dict (fst z)) (k + 1) = Some b' \<and> b < 1 \<and> b \<le> b' \<and> b' \<le> 1"
    by blast
  show ?case
  proof (intro allI impI)
    fix j assume "snd (snd x) \<le> j \<and> j < snd (snd z)"
    then have j: "snd (snd x) \<le> j" "j \<le> k" using z by simp_all
    show "\<exists>b b'. map_of (betas_dict (fst z)) j = Some b
              \<and> map_of (betas_dict (fst z)) (j + 1) = Some b' \<and> b < 1 \<and> b \<le> b' \<and> b' \<le> 1"
    proof (cases "j = k")
      case True
      with last show ?thesis by simp
    next
      case False
      with j have "j < k" by simp
      with j(1) step.IH y obtain b b' where
        "map_of (betas_dict st) j = Some b" "map_of (betas_dict st) (j + 1) = Some b'"
        "b < 1" "b \<le> b'" "b' \<le> 1"
        by auto
      with \<open>j < k\<close> z r show ?thesis by (simp add: store_stage_lookups)
    qed
  qed
qed

section \<open>Properties of the proposal builder\<close>

lemma dot_Nil [simp]: "dot [] ys = 0" "dot xs [] = 0"
  by (simp_all add: dot_def)

lemma dot_Cons [simp]: "dot (x # xs) (y # ys) = x * y + dot xs ys"
  by (simp add: dot_def)

section \<open>Properties of the warm-start selector\<close>

lemma rev_sort_hd:
  fixes ks :: "int list"
  assumes "ks \<noteq> []"
  shows "\<exists>rest. rev (sort ks) = Max (set ks) # rest"
proof -
  let ?xs = "sort ks"
  have ne: "?xs \<noteq> []" using assms by (metis length_0_conv length_sort)
  then have split: "?xs = butlast ?xs @ [last ?xs]" by simp
  have "sorted (butlast ?xs @ [last ?xs])" using split by (metis sorted_sort)
  then have "\<forall>x \<in> set (butlast ?xs). x \<le> last ?xs" by (simp add: sorted_append)
  then have "\<forall>x \<in> set ?xs. x \<le> last ?xs" using split
    by (metis Un_iff insert_iff list.set(2) order_refl set_append empty_iff empty_set)
  moreover have "last ?xs \<in> set ?xs" using ne by (rule last_in_set)
  ultimately have "Max (set ?xs) = last ?xs" by (intro Max_eqI) auto
  then have "last ?xs = Max (set ks)" by simp
  moreover have "rev ?xs = last ?xs # rev (butlast ?xs)" using split by (metis rev.simps(2) rev_append rev_singleton_conv append_Cons append_Nil)
  ultimately show ?thesis by metis
qed

lemma map2_minus_self: "map2 (-) (xs :: real list) xs = replicate (length xs) 0"
  by (induction xs) simp_all

lemma calculate_weights_warm_start_eq:
  "np_subtract c p = Inr d \<Longrightarrow> calculate_weights_warm_start b c p = calculate_weights b d"
  by (simp add: calculate_weights_warm_start_def calculate_weights_def)

lemma warm_start_weights_identity:
  assumes "prev \<noteq> []"
  shows "calculate_weights_warm_start b prev prev
           = Inr (replicate (length prev) (1 / real (length prev)))"
proof -
  have "np_subtract prev prev = Inr (replicate (length prev) 0)"
    by (simp add: np_subtract_def map2_minus_self)
  then have "calculate_weights_warm_start b prev prev = calculate_weights b (replicate (length prev) 0)"
    by (rule calculate_weights_warm_start_eq)
  then show ?thesis using assms by (simp add: calculate_weights_replicate)
qed

lemma warm_start_loop_none:
  assumes "\<forall>k \<in> set ks. \<exists>s prev b w. map_of samples k = Some s
              \<and> map_of log_likelihoods k = Some prev \<and> map_of betas k = Some b
              \<and> calculate_weights_warm_start b (approx s) prev = Inr w
              \<and> \<not> cov_weights w < tau"
  shows "warm_start_loop approx samples betas log_likelihoods tau ks = Inr 0"
  using assms
proof (induction ks)
  case Nil
  show ?case by simp
next
  case (Cons k ks)
  then obtain s prev b w where "map_of samples k = Some s"
    "map_of log_likelihoods k = Some prev" "map_of betas k = Some b"
    "calculate_weights_warm_start b (approx s) prev = Inr w" "\<not> cov_weights w < tau"
    by auto
  moreover have "warm_start_loop approx samples betas log_likelihoods tau ks = Inr 0"
    using Cons by simp
  ultimately show ?case by simp
qed

section \<open>A stage on the small population\<close>

lemma increment_beta_replicate:
  "0 < n \<Longrightarrow> increment_beta root_scalar (replicate n c) beta tau = Some (Inr 1)"
  by (simp add: increment_beta_def cov_objective_replicate)

lemma upt_2: "[0..<2] = [0, 1]"
  by (simp add: upt_rec numeral_2_eq_2)

lemma upt_3: "[0..<3] = [0, 1, 2]"
  by (simp add: upt_rec numeral_3_eq_3)

lemma three_weights: "calculate_weights b [0, 0, 0] = Inr [1 / 3, 1 / 3, 1 / 3]"
  using calculate_weights_replicate [of 3 b 0] by (simp add: numeral_3_eq_3)

lemma three_log_evidence: "calculate_log_evidence b [0, 0, 0] = Inr 0"
  by (simp add: calculate_log_evidence_def logsumexp_def np_max_def)

lemma three_increment_beta: "increment_beta root_scalar [0, 0, 0] beta tau = Some (Inr 1)"
  using increment_beta_replicate [of 3 root_scalar 0 beta tau] by (simp add: numeral_3_eq_3)

lemma three_covariance:
  "get_scaled_proposal_covariance three_samples [1 / 3, 1 / 3, 1 / 3] sf
     = Inr (Two_dim (Some [[sf\<^sup>2, 0], [0, sf\<^sup>2 * 3]]))"
  by (simp add: get_scaled_proposal_covariance_def np_cov_def three_samples_def Let_def upt_2)

lemma three_cholesky:
  "sf \<noteq> 0 \<Longrightarrow>
   np_linalg_cholesky (Two_dim (Some [[sf\<^sup>2, 0], [0, sf\<^sup>2 * 3]]))
     = Inr (Some [[\<bar>sf\<bar>, 0], [0, sqrt (sf\<^sup>2 * 3)]])"
  by (simp add: np_linalg_cholesky_def Let_def mult_le_0_iff)

lemma three_stage_rejecting:
  assumes "sf \<noteq> 0"
  shows "run_one_stage root_scalar fixed_generator (sampler llf low_log_target_density t)
     three_samples [0, 0, 0] [0, 0, 0] beta g llf low_log_target_density sf tar False 0
   = Some (Inr ((\<lparr>ncols = 2, rows = [[1, 1], [1, 1], [1, 1]]\<rparr>, [0, 0, 0], [0, 0, 0], 1, 0),
        g + 9))"
  apply (simp add: run_one_stage_def three_increment_beta rejuvenate_def three_log_evidence
      three_weights three_covariance three_cholesky [OF assms])
  apply (simp add: three_samples_def sampler_def fixed_generator_def upt_3 stage_round_def
      mh_step_def adapt_if_due_def propose_def get_item_def set_item_def set_row_def
      emit_row_def matvec_def log_le_def low_log_target_density_def Let_def)
  done

lemma three_stage_invalid_evaluator:
  assumes "sf \<noteq> 0"
  shows "run_one_stage root_scalar fixed_generator
     (sampler two_valued_log_likelihood flat_log_target_density t)
     three_samples [0, 0, 0] [0, 0, 0] beta g two_valued_log_likelihood
     flat_log_target_density sf tar False 0
   = Some (Inl (ValueError ''Expected a single value, but got 2 values.''))"
  apply (simp add: run_one_stage_def three_increment_beta rejuvenate_def three_log_evidence
      three_weights three_covariance three_cholesky [OF assms])
  apply (simp add: three_samples_def sampler_def fixed_generator_def upt_3 stage_round_def
      mh_step_def adapt_if_due_def propose_def get_item_def set_item_def set_row_def
      emit_row_def matvec_def log_le_def flat_log_target_density_def
      two_valued_log_likelihood_def accept_proposal_def generate_error_message_def
      string_of_nat.simps Let_def)
  done

section \<open>The driver on the small population, and its frame\<close>

lemma run_Some_cases:
  assumes "run root_scalar G self st g k nbi = Some res"
  shows "(res = Raised (KeyError 0) st \<or> res = Raised ZeroDivisionError st)
       \<or> (\<exists>sf tar. run_loop root_scalar G self sf tar nbi st g k = Some res)"
  using assms by (auto simp: run_def Let_def split: option.splits if_splits)

lemma sampler_sel:
  "log_likelihood_approximation (sampler llf ltf t) = llf"
  "log_posterior_approximation (sampler llf ltf t) = ltf"
  by (simp_all add: sampler_def)

lemma three_run_state_lookups:
  "map_of (samples_dict three_run_state) 0 = Some three_samples"
  "map_of (betas_dict three_run_state) 0 = Some 0"
  "map_of (log_likelihoods_dict three_run_state) 0 = Some [0, 0, 0]"
  "map_of (log_target_density_values_dict three_run_state) 0 = Some [0, 0, 0]"
  by (simp_all add: three_run_state_def)

lemma three_stage_step:
  assumes "sf \<noteq> 0"
  shows "stage_step root_scalar fixed_generator (sampler llf low_log_target_density t) sf tar 0
           (three_run_state, g, 0) (store_stage three_run_state 1 three_stage_result, g + 9, 1)"
proof -
  have "stage_step root_scalar fixed_generator (sampler llf low_log_target_density t) sf tar 0
           (three_run_state, g, 0)
           (store_stage three_run_state (0 + 1) three_stage_result, g + 9, 0 + 1)"
    by (rule stage_step.intros [where beta = 0 and samples = three_samples
          and log_likelihoods = "[0, 0, 0]" and log_target_density_values = "[0, 0, 0]"])
       (simp_all add: three_run_state_lookups sampler_sel three_stage_rejecting [OF assms]
          three_stage_result_def)
  then show ?thesis by simp
qed

lemma three_run_loop_returns:
  assumes "sf \<noteq> 0"
  shows "run_loop root_scalar fixed_generator (sampler llf low_log_target_density t) sf tar 0
           three_run_state g 0
         = Some (Returned (store_stage three_run_state 1 three_stage_result))"
proof -
  have "run_loop root_scalar fixed_generator (sampler llf low_log_target_density t) sf tar 0
           three_run_state g 0
      = run_loop root_scalar fixed_generator (sampler llf low_log_target_density t) sf tar 0
           (store_stage three_run_state 1 three_stage_result) (g + 9) 1"
    by (rule run_loop_step [OF three_stage_step [OF assms]])
  also have "\<dots> = Some (Returned (store_stage three_run_state 1 three_stage_result))"
    by (rule run_loop_stops [where b = 1])
       (simp_all add: three_stage_result_def store_stage_lookups)
  finally show ?thesis .
qed

lemma three_run_returns:
  "run root_scalar fixed_generator (sampler llf low_log_target_density t) three_run_state g 0 0
     = Some (Returned (store_stage three_run_state 1 three_stage_result))"
proof -
  have "ncols three_samples = 2" by (simp add: three_samples_def)
  moreover have "(24 / 10) / sqrt 2 \<noteq> (0 :: real)" by simp
  ultimately show ?thesis
    by (simp add: run_def Let_def three_run_loop_returns three_run_state_lookups)
qed

lemma three_run_raises:
  "run root_scalar fixed_generator
     (sampler two_valued_log_likelihood flat_log_target_density t) three_run_state g 0 0
     = Some (Raised (ValueError ''Expected a single value, but got 2 values.'') three_run_state)"
proof -
  have "ncols three_samples = 2" by (simp add: three_samples_def)
  moreover have "run_loop root_scalar fixed_generator
     (sampler two_valued_log_likelihood flat_log_target_density t) sf tar 0
     three_run_state g 0
     = Some (Raised (ValueError ''Expected a single value, but got 2 values.'') three_run_state)"
    if "sf \<noteq> 0" for sf tar
    by (subst run_loop.simps)
       (simp add: three_run_state_lookups sampler_sel three_stage_invalid_evaluator [OF that])
  ultimately show ?thesis
    by (simp add: run_def Let_def three_run_state_lookups)
qed

text \<open>
  Claim C10. When the run state holds stage 0 with at least one column (the number of
  dimensions is read there) and the beta of the entry stage is at least 1, \<^verbatim>\<open>run\<close>
  returns the five dictionaries as they are, and no stage starts from the entry state.
\<close>

theorem run_at_beta_one_changes_nothing:
  assumes "map_of (samples_dict st) 0 = Some samples0" and "ncols samples0 \<noteq> 0"
    and "map_of (betas_dict st) stage_num = Some beta" and "1 \<le> beta"
  shows "run root_scalar G self st g stage_num num_burn_in = Some (Returned st)
       \<and> (\<forall>sf tar z. \<not> stage_step root_scalar G self sf tar num_burn_in (st, g, stage_num) z)"
proof
  show "run root_scalar G self st g stage_num num_burn_in = Some (Returned st)"
    using assms by (simp add: run_def Let_def run_loop_stops)
  show "\<forall>sf tar z. \<not> stage_step root_scalar G self sf tar num_burn_in (st, g, stage_num) z"
    using assms(3,4) by (auto elim: stage_step.cases)
qed

theorem run_at_beta_one_changes_nothing_witness:
  "map_of (samples_dict (store_stage three_run_state 1 three_stage_result)) 0 = Some three_samples
   \<and> ncols three_samples \<noteq> 0
   \<and> map_of (betas_dict (store_stage three_run_state 1 three_stage_result)) 1 = Some 1
   \<and> (1 :: real) \<le> 1
   \<and> run bisect fixed_generator (sampler scalar_log_likelihood flat_log_target_density 1)
        (store_stage three_run_state 1 three_stage_result) 0 1 0
       = Some (Returned (store_stage three_run_state 1 three_stage_result))"
proof -
  have h1: "map_of (samples_dict (store_stage three_run_state 1 three_stage_result)) 0
              = Some three_samples"
    by (simp add: three_stage_result_def store_stage_lookups three_run_state_def)
  have h2: "ncols three_samples \<noteq> 0" by (simp add: three_samples_def)
  have h3: "map_of (betas_dict (store_stage three_run_state 1 three_stage_result)) 1 = Some 1"
    by (simp add: three_stage_result_def store_stage_lookups)
  have h4: "(1 :: real) \<le> 1" by simp
  from run_at_beta_one_changes_nothing [OF h1 h2 h3 h4, where root_scalar = bisect
      and G = fixed_generator
      and self = "sampler scalar_log_likelihood flat_log_target_density 1"
      and g = 0 and num_burn_in = 0] h1 h2 h3
  show ?thesis by simp
qed



section \<open>Beta along the stages\<close>

text \<open>
  Claim C4. For a root finder that keeps to its bracket: (1) for every non-empty
  log-likelihood vector, every beta up to 1 and every positive threshold,
  \<^verbatim>\<open>_increment_beta\<close> returns, and the new beta lies between the old one and 1; (2) when
  \<^verbatim>\<open>run\<close> returns, the stages \<open>k + 1, \<dots>, k'\<close> it appended have betas that never
  decrease and never exceed 1, every stage before the last has a beta below 1, the last
  has a beta of at least 1, and nothing is stored beyond it; (3) as soon as a complete
  stage stores a beta of at least 1, the loop returns with the state that stage left.
\<close>

theorem beta_never_decreases_and_run_stops_at_one:
  assumes rs: "bracketing_root_finder root_scalar"
  shows "(l \<noteq> [] \<and> beta \<le> 1 \<and> 0 < tau
          \<longrightarrow> (\<exists>new_beta. increment_beta root_scalar l beta tau = Some (Inr new_beta)
                 \<and> beta \<le> new_beta \<and> new_beta \<le> 1))
       \<and> (run root_scalar G self st g k nbi = Some (Returned st')
          \<longrightarrow> (\<exists>k'. k \<le> k'
                 \<and> (\<forall>j. k \<le> j \<and> j < k' \<longrightarrow>
                       (\<exists>b b'. map_of (betas_dict st') j = Some b
                          \<and> map_of (betas_dict st') (j + 1) = Some b'
                          \<and> b < 1 \<and> b \<le> b' \<and> b' \<le> 1))
                 \<and> (\<exists>b. map_of (betas_dict st') k' = Some b \<and> 1 \<le> b)
                 \<and> (\<forall>j. j \<le> k \<or> k' < j \<longrightarrow> same_entries st st' j)))
       \<and> (\<forall>sf tar st1 g1 k1 b1.
             stage_step root_scalar G self sf tar nbi (st, g, k) (st1, g1, k1)
             \<and> map_of (betas_dict st1) k1 = Some b1 \<and> 1 \<le> b1
             \<longrightarrow> run_loop root_scalar G self sf tar nbi st g k = Some (Returned st1))"
proof (intro conjI allI impI)
  assume "l \<noteq> [] \<and> beta \<le> 1 \<and> 0 < tau"
  then show "\<exists>new_beta. increment_beta root_scalar l beta tau = Some (Inr new_beta)
                 \<and> beta \<le> new_beta \<and> new_beta \<le> 1"
    using increment_beta_returns_in_range [OF _ _ _ rs] by blast
next
  assume ret: "run root_scalar G self st g k nbi = Some (Returned st')"
  from run_Some_cases [OF ret] obtain sf tar where
    loop: "run_loop root_scalar G self sf tar nbi st g k = Some (Returned st')"
    by auto
  from run_loop_outcome [OF loop] obtain st'' g' k' where
    steps: "(stage_step root_scalar G self sf tar nbi)\<^sup>*\<^sup>* (st, g, k) (st'', g', k')"
    and out: "loop_outcome root_scalar G self sf tar nbi st'' g' k' (Returned st')"
    by blast
  from out have st'': "st'' = st'" and last: "\<exists>b. map_of (betas_dict st') k' = Some b \<and> 1 \<le> b"
    by (auto simp: loop_outcome_def)
  from stage_steps_frame [OF steps] st''
  have "k \<le> k'" "\<forall>j. j \<le> k \<or> k' < j \<longrightarrow> same_entries st st' j" by simp_all
  moreover from stage_steps_betas [OF steps rs] st''
  have "\<forall>j. k \<le> j \<and> j < k' \<longrightarrow>
          (\<exists>b b'. map_of (betas_dict st') j = Some b \<and> map_of (betas_dict st') (j + 1) = Some b'
             \<and> b < 1 \<and> b \<le> b' \<and> b' \<le> 1)"
    by simp
  ultimately show "\<exists>k'. k \<le> k'
                 \<and> (\<forall>j. k \<le> j \<and> j < k' \<longrightarrow>
                       (\<exists>b b'. map_of (betas_dict st') j = Some b
                          \<and> map_of (betas_dict st') (j + 1) = Some b'
                          \<and> b < 1 \<and> b \<le> b' \<and> b' \<le> 1))
                 \<and> (\<exists>b. map_of (betas_dict st') k' = Some b \<and> 1 \<le> b)
                 \<and> (\<forall>j. j \<le> k \<or> k' < j \<longrightarrow> same_entries st st' j)"
    using last by blast
next
  fix sf tar st1 g1 k1 b1
  assume a: "stage_step root_scalar G self sf tar nbi (st, g, k) (st1, g1, k1)
             \<and> map_of (betas_dict st1) k1 = Some b1 \<and> 1 \<le> b1"
  then have "run_loop root_scalar G self sf tar nbi st g k
               = run_loop root_scalar G self sf tar nbi st1 g1 k1"
    by (intro run_loop_step) simp
  also have "\<dots> = Some (Returned st1)" using a by (intro run_loop_stops [where b = b1]) simp_all
  finally show "run_loop root_scalar G self sf tar nbi st g k = Some (Returned st1)" .
qed

theorem beta_never_decreases_and_run_stops_at_one_witness:
  "bracketing_root_finder bisect
   \<and> [0, 2 * ln 3] \<noteq> ([] :: real list) \<and> (0 :: real) \<le> 1 \<and> (0 :: real) < 1 / 2
   \<and> (\<exists>new_beta. increment_beta bisect [0, 2 * ln 3] 0 (1 / 2) = Some (Inr new_beta)
          \<and> 0 \<le> new_beta \<and> new_beta \<le> 1)
   \<and> run bisect fixed_generator (sampler scalar_log_likelihood low_log_target_density 1)
        three_run_state 0 0 0
       = Some (Returned (store_stage three_run_state 1 three_stage_result))
   \<and> (\<exists>k'. 0 \<le> k'
          \<and> (\<exists>b. map_of (betas_dict (store_stage three_run_state 1 three_stage_result)) k' = Some b
                 \<and> 1 \<le> b))
   \<and> stage_step bisect fixed_generator (sampler scalar_log_likelihood low_log_target_density 1)
        1 (1 / 3) 0 (three_run_state, 0, 0)
        (store_stage three_run_state 1 three_stage_result, 9, 1)
   \<and> run_loop bisect fixed_generator (sampler scalar_log_likelihood low_log_target_density 1)
        1 (1 / 3) 0 three_run_state 0 0
       = Some (Returned (store_stage three_run_state 1 three_stage_result))"
proof -
  let ?self = "sampler scalar_log_likelihood low_log_target_density 1"
  let ?st1 = "store_stage three_run_state 1 three_stage_result"
  note inst = beta_never_decreases_and_run_stops_at_one [OF bisect_bracketing,
      where l = "[0, 2 * ln 3]" and beta = 0 and tau = "1 / 2" and G = fixed_generator
        and self = "?self" and st = three_run_state and g = 0 and k = 0 and nbi = 0
        and st' = "?st1"]
  have r: "run bisect fixed_generator ?self three_run_state 0 0 0 = Some (Returned ?st1)"
    by (rule three_run_returns)
  have s: "stage_step bisect fixed_generator ?self 1 (1 / 3) 0 (three_run_state, 0, 0) (?st1, 9, 1)"
    using three_stage_step [of 1 bisect scalar_log_likelihood 1 "1 / 3" 0] by simp
  have b: "map_of (betas_dict ?st1) 1 = Some 1 \<and> (1 :: real) \<le> 1"
    by (simp add: three_stage_result_def store_stage_lookups)
  from inst have "\<exists>new_beta. increment_beta bisect [0, 2 * ln 3] 0 (1 / 2) = Some (Inr new_beta)
          \<and> 0 \<le> new_beta \<and> new_beta \<le> 1"
    by simp
  moreover from inst r have "\<exists>k'. 0 \<le> k'
          \<and> (\<exists>b. map_of (betas_dict ?st1) k' = Some b \<and> 1 \<le> b)"
    by blast
  moreover from inst s b have "run_loop bisect fixed_generator ?self 1 (1 / 3) 0 three_run_state 0 0
       = Some (Returned ?st1)"
    by blast
  ultimately show ?thesis using bisect_bracketing r s by simp
qed

section \<open>The size check of the evaluators\<close>

lemma string_of_nat_2: "string_of_nat 2 = ''2''"
  by (simp add: string_of_nat.simps)

lemma propose_index:
  assumes "propose G llf ltf index s = Inr r"
  shows "index < length (rows (current_samples s))"
  using assms
  by (auto simp: propose_def get_item_def Let_def split: prod.splits sum.splits if_splits)

text \<open>
  One round of the inner loop, once the adaptation did not raise and the proposal was
  evaluated: an accepted proposal whose log-likelihood value has \<open>n \<noteq> 1\<close> entries
  raises the error of the size check, and a rejected proposal raises nothing.
\<close>

lemma mh_step_size_check:
  assumes "adapt_if_due self tar s0 = Inr s"
    and "propose G llf ltf index s = Inr (proposed_state, ll, lt, accept, g2)"
  shows "(accept \<and> length ll \<noteq> 1 \<longrightarrow>
            mh_step G self llf ltf tar new_beta beta k burn_in_steps index s0
              = Inl (ValueError (''Expected a single value, but got '' @ string_of_nat (length ll)
                                   @ '' values.'')))
       \<and> (accept \<and> length ll = 2 \<longrightarrow>
            mh_step G self llf ltf tar new_beta beta k burn_in_steps index s0
              = Inl (ValueError ''Expected a single value, but got 2 values.''))
       \<and> (\<not> accept \<longrightarrow>
            mh_step G self llf ltf tar new_beta beta k burn_in_steps index s0
              = Inr (s\<lparr>rng := g2\<rparr>))"
proof -
  have idx: "index < length (rows (current_samples s))"
    using assms(2) by (rule propose_index)
  have acc: "mh_step G self llf ltf tar new_beta beta k burn_in_steps index s0
              = Inl (ValueError (generate_error_message (length ll)))"
    if "accept" "length ll \<noteq> 1"
    using that assms idx
    by (simp add: mh_step_def accept_proposal_def set_row_def set_item_def)
  have rej: "mh_step G self llf ltf tar new_beta beta k burn_in_steps index s0 = Inr (s\<lparr>rng := g2\<rparr>)"
    if "\<not> accept"
    using that assms by (simp add: mh_step_def)
  show ?thesis
    using acc rej by (auto simp: generate_error_message_def string_of_nat_2)
qed

text \<open>An error raised in a loop body leaves the loop, the round and the stage.\<close>

lemma iterate_err_raises:
  "iterate_err m f s = Inr s' \<Longrightarrow> f s' = Inl e \<Longrightarrow> m < n \<Longrightarrow> iterate_err n f s = Inl e"
proof (induction m arbitrary: s n)
  case 0
  then obtain n' where "n = Suc n'" by (cases n) auto
  with 0 show ?case by simp
next
  case (Suc m)
  then obtain n' where n: "n = Suc n'" and "m < n'" by (cases n) auto
  from Suc.prems(1) obtain s1 where s1: "f s = Inr s1" "iterate_err m f s1 = Inr s'"
    by (cases "f s") auto
  from Suc.IH [OF s1(2) Suc.prems(2) \<open>m < n'\<close>] s1(1) n show ?case by simp
qed

lemma fold_err_raises:
  "fold_err f xs s = Inr s' \<Longrightarrow> f x s' = Inl e \<Longrightarrow> fold_err f (xs @ x # ys) s = Inl e"
proof (induction xs arbitrary: s)
  case Nil
  then show ?case by simp
next
  case (Cons a xs)
  from Cons.prems(1) obtain s1 where s1: "f a s = Inr s1" "fold_err f xs s1 = Inr s'"
    by (cases "f a s") auto
  from Cons.IH [OF s1(2) Cons.prems(2)] s1(1) show ?case by simp
qed

lemma upt_split: "k < n \<Longrightarrow> [0..<n] = [0..<k] @ k # [Suc k..<n]"
proof -
  assume k: "k < n"
  have "[0..<n] = [0..<k] @ [k..<n]"
    using k upt_add_eq_append [of 0 k "n - k"] by simp
  then show ?thesis using k by (simp add: upt_conv_Cons)
qed

lemma stage_round_raises:
  assumes "round_start G self new_beta dt bi num_samples k s1 = (index, s2)"
    and "iterate_err m (mh_step G self llf ltf tar new_beta beta k bi index) s2 = Inr s3"
    and "m < nat (steps_per_row s2)"
    and "mh_step G self llf ltf tar new_beta beta k bi index s3 = Inl e"
  shows "stage_round G self llf ltf tar new_beta beta dt bi num_samples k s1 = Inl e"
proof -
  have "iterate_err (nat (steps_per_row s2)) (mh_step G self llf ltf tar new_beta beta k bi index) s2
          = Inl e"
    using assms(2,4,3) by (rule iterate_err_raises)
  then show ?thesis
    using assms(1)
    by (auto simp: stage_round_def round_start_def Let_def split: prod.splits if_splits)
qed

lemma rejuvenate_raises:
  assumes "calculate_weights (new_beta - beta) l = Inr w0"
    and "get_scaled_proposal_covariance samples w0 sf = Inr c"
    and "np_linalg_cholesky c = Inr (Some L)"
    and "fold_err (stage_round G self llf ltf tar new_beta beta dt bi (length (rows samples)))
           [0..<k] (initial_stage_state self samples l lt0 w0 sf L g) = Inr s1"
    and "k < nat (bi + int (length (rows samples)))"
    and "stage_round G self llf ltf tar new_beta beta dt bi (length (rows samples)) k s1 = Inl e"
  shows "rejuvenate G self samples l lt0 beta g llf ltf sf tar dt bi new_beta = Inl e"
proof -
  from assms(1) have "l \<noteq> []" by (auto simp: calculate_weights_def np_max_def)
  then obtain le where le: "calculate_log_evidence (new_beta - beta) l = Inr le"
    by (simp add: calculate_log_evidence_def logsumexp_ln_sum)
  have "fold_err (stage_round G self llf ltf tar new_beta beta dt bi (length (rows samples)))
           ([0..<k] @ k # [Suc k..<nat (bi + int (length (rows samples)))])
           (initial_stage_state self samples l lt0 w0 sf L g) = Inl e"
    using assms(4,6) by (rule fold_err_raises)
  then have "fold_err (stage_round G self llf ltf tar new_beta beta dt bi (length (rows samples)))
           [0..<nat (bi + int (length (rows samples)))]
           (initial_stage_state self samples l lt0 w0 sf L g) = Inl e"
    using upt_split [OF assms(5)] by simp
  then show ?thesis
    using le assms(1-3) by (simp add: rejuvenate_def initial_stage_state_def Let_def)
qed


text \<open>
  Claim C2, amended. The size of the log-likelihood value is checked only when the
  proposal is accepted. Take a stage whose temperature step, weights, covariance and
  factorisation succeeded, whose rounds before round \<open>k\<close> and whose inner steps before
  step \<open>m\<close> of round \<open>k\<close> raised nothing, and whose step \<open>m\<close> adapts without error and
  evaluates its proposal (so the log-target-density value had one entry and the
  comparison has a truth value). If that proposal is accepted and the log-likelihood
  value has \<open>n \<noteq> 1\<close> entries, the stage raises the error with the message
  \<^verbatim>\<open>Expected a single value, but got <n> values.\<close>, for \<open>n = 2\<close> exactly
  \<^verbatim>\<open>Expected a single value, but got 2 values.\<close>; if it is rejected, the step raises
  nothing whatever the size, and only the generator and the step count change.
\<close>

theorem stage_raises_on_accepted_proposal_of_wrong_size:
  assumes "increment_beta root_scalar l beta default_threshold_cov = Some (Inr new_beta)"
    and "calculate_weights (new_beta - beta) l = Inr w0"
    and "get_scaled_proposal_covariance samples w0 sf = Inr c"
    and "np_linalg_cholesky c = Inr (Some L)"
    and "fold_err (stage_round G self llf ltf tar new_beta beta dt bi (length (rows samples)))
           [0..<k] (initial_stage_state self samples l lt0 w0 sf L g) = Inr s1"
    and "k < nat (bi + int (length (rows samples)))"
    and "round_start G self new_beta dt bi (length (rows samples)) k s1 = (index, s2)"
    and "iterate_err m (mh_step G self llf ltf tar new_beta beta k bi index) s2 = Inr s3"
    and "m < nat (steps_per_row s2)"
    and "adapt_if_due self tar s3 = Inr s"
    and "propose G llf ltf index s = Inr (proposed_state, ll, lt, accept, g2)"
  shows "(accept \<and> length ll \<noteq> 1 \<longrightarrow>
            run_one_stage root_scalar G self samples l lt0 beta g llf ltf sf tar dt bi
              = Some (Inl (ValueError (''Expected a single value, but got ''
                                         @ string_of_nat (length ll) @ '' values.''))))
       \<and> (accept \<and> length ll = 2 \<longrightarrow>
            run_one_stage root_scalar G self samples l lt0 beta g llf ltf sf tar dt bi
              = Some (Inl (ValueError ''Expected a single value, but got 2 values.'')))
       \<and> (\<not> accept \<longrightarrow>
            mh_step G self llf ltf tar new_beta beta k bi index s3 = Inr (s\<lparr>rng := g2\<rparr>))"
proof -
  note step = mh_step_size_check [OF assms(10,11), where new_beta = new_beta
      and beta = beta and k = k and burn_in_steps = bi]
  have stage: "run_one_stage root_scalar G self samples l lt0 beta g llf ltf sf tar dt bi
                 = Some (Inl (ValueError msg))"
    if "mh_step G self llf ltf tar new_beta beta k bi index s3 = Inl (ValueError msg)" for msg
  proof -
    have "stage_round G self llf ltf tar new_beta beta dt bi (length (rows samples)) k s1
            = Inl (ValueError msg)"
      using assms(7,8,9) that by (rule stage_round_raises)
    with assms(2,3,4,5,6)
    have "rejuvenate G self samples l lt0 beta g llf ltf sf tar dt bi new_beta
            = Inl (ValueError msg)"
      by (rule rejuvenate_raises)
    then show ?thesis using assms(1) by (simp add: run_one_stage_def)
  qed
  show ?thesis using step stage by blast
qed

lemma three_initial_stage_state:
  "initial_stage_state (sampler llf ltf t) three_samples [0, 0, 0] [0, 0, 0]
     [1 / 3, 1 / 3, 1 / 3] 1 [[1, 0], [0, sqrt 3]] 0 = three_stage_state"
  by (simp add: initial_stage_state_def three_stage_state_def sampler_def three_samples_def)

lemma three_round_start:
  "round_start fixed_generator (sampler llf ltf t) 1 False 0 3 0 three_stage_state
     = (0, three_stage_state\<lparr>rng := 1\<rparr>)"
  by (simp add: round_start_def fixed_generator_def sampler_def three_stage_state_def)

lemma three_round_adapt_if_due:
  "adapt_if_due (sampler llf ltf t) tar (three_stage_state\<lparr>rng := 1\<rparr>)
     = Inr (three_stage_state\<lparr>rng := 1, step_count := 1\<rparr>)"
  by (simp add: adapt_if_due_def sampler_def three_stage_state_def)

lemma three_round_propose_accepted:
  "propose fixed_generator two_valued_log_likelihood flat_log_target_density 0
     (three_stage_state\<lparr>rng := 1, step_count := 1\<rparr>) = Inr ([1, 1], [0, 0], [0], True, 3)"
  by (simp add: propose_def three_stage_state_def three_samples_def fixed_generator_def
      get_item_def matvec_def two_valued_log_likelihood_def flat_log_target_density_def
      log_le_def Let_def numeral_2_eq_2)

lemma three_round_propose_rejected:
  "propose fixed_generator two_valued_log_likelihood low_log_target_density 0
     (three_stage_state\<lparr>rng := 1, step_count := 1\<rparr>) = Inr ([1, 1], [0, 0], [- 2], False, 3)"
  by (simp add: propose_def three_stage_state_def three_samples_def fixed_generator_def
      get_item_def matvec_def two_valued_log_likelihood_def low_log_target_density_def
      log_le_def Let_def numeral_2_eq_2)

lemma three_covariance_one:
  "get_scaled_proposal_covariance three_samples [1 / 3, 1 / 3, 1 / 3] 1
     = Inr (Two_dim (Some [[1, 0], [0, 3]]))"
  using three_covariance [of 1] by simp

lemma three_cholesky_one:
  "np_linalg_cholesky (Two_dim (Some [[1, 0], [0, 3]])) = Inr (Some [[1, 0], [0, sqrt 3]])"
  using three_cholesky [of 1] by simp

theorem stage_raises_on_accepted_proposal_of_wrong_size_witness:
  "increment_beta bisect [0, 0, 0] 0 default_threshold_cov = Some (Inr 1)
   \<and> calculate_weights (1 - 0) [0, 0, 0] = Inr [1 / 3, 1 / 3, 1 / 3]
   \<and> get_scaled_proposal_covariance three_samples [1 / 3, 1 / 3, 1 / 3] 1
       = Inr (Two_dim (Some [[1, 0], [0, 3]]))
   \<and> np_linalg_cholesky (Two_dim (Some [[1, 0], [0, 3]])) = Inr (Some [[1, 0], [0, sqrt 3]])
   \<and> initial_stage_state (sampler two_valued_log_likelihood flat_log_target_density 1)
        three_samples [0, 0, 0] [0, 0, 0] [1 / 3, 1 / 3, 1 / 3] 1 [[1, 0], [0, sqrt 3]] 0
       = three_stage_state
   \<and> round_start fixed_generator (sampler two_valued_log_likelihood flat_log_target_density 1)
        1 False 0 3 0 three_stage_state = (0, three_stage_state\<lparr>rng := 1\<rparr>)
   \<and> adapt_if_due (sampler two_valued_log_likelihood flat_log_target_density 1) (1 / 3)
        (three_stage_state\<lparr>rng := 1\<rparr>) = Inr (three_stage_state\<lparr>rng := 1, step_count := 1\<rparr>)
   \<and> propose fixed_generator two_valued_log_likelihood flat_log_target_density 0
        (three_stage_state\<lparr>rng := 1, step_count := 1\<rparr>) = Inr ([1, 1], [0, 0], [0], True, 3)
   \<and> length [0 :: real, 0] = 2
   \<and> run_one_stage bisect fixed_generator
        (sampler two_valued_log_likelihood flat_log_target_density 1)
        three_samples [0, 0, 0] [0, 0, 0] 0 0 two_valued_log_likelihood flat_log_target_density
        1 (1 / 3) False 0
       = Some (Inl (ValueError ''Expected a single value, but got 2 values.''))
   \<and> propose fixed_generator two_valued_log_likelihood low_log_target_density 0
        (three_stage_state\<lparr>rng := 1, step_count := 1\<rparr>)
       = Inr ([1, 1], [0, 0], [- 2], False, 3)
   \<and> mh_step fixed_generator (sampler two_valued_log_likelihood low_log_target_density 1)
        two_valued_log_likelihood low_log_target_density (1 / 3) 1 0 0 0 0
        (three_stage_state\<lparr>rng := 1\<rparr>)
       = Inr (three_stage_state\<lparr>rng := 3, step_count := 1\<rparr>)"
proof -
  have h1: "increment_beta bisect [0, 0, 0] 0 default_threshold_cov = Some (Inr 1)"
    by (rule three_increment_beta)
  have h2: "calculate_weights (1 - 0) [0, 0, 0] = Inr [1 / 3, 1 / 3, 1 / 3]"
    by (rule three_weights)
  note h3 = three_covariance_one
  note h4 = three_cholesky_one
  have k: "(0 :: nat) < nat (0 + int (length (rows three_samples)))"
    by (simp add: three_samples_def)
  have len: "length (rows three_samples) = 3" by (simp add: three_samples_def)
  have m: "(0 :: nat) < nat (steps_per_row (three_stage_state\<lparr>rng := 1\<rparr>))"
    by (simp add: three_stage_state_def)
  have l2: "length [0 :: real, 0] = 2" by simp
  have f1: "fold_err (stage_round fixed_generator
                (sampler two_valued_log_likelihood flat_log_target_density 1)
                two_valued_log_likelihood flat_log_target_density (1 / 3) 1 0 False 0
                (length (rows three_samples))) [0..<0]
              (initial_stage_state (sampler two_valued_log_likelihood flat_log_target_density 1)
                 three_samples [0, 0, 0] [0, 0, 0] [1 / 3, 1 / 3, 1 / 3] 1 [[1, 0], [0, sqrt 3]] 0)
            = Inr three_stage_state"
    by (simp add: three_initial_stage_state)
  have f2: "fold_err (stage_round fixed_generator
                (sampler two_valued_log_likelihood low_log_target_density 1)
                two_valued_log_likelihood low_log_target_density (1 / 3) 1 0 False 0
                (length (rows three_samples))) [0..<0]
              (initial_stage_state (sampler two_valued_log_likelihood low_log_target_density 1)
                 three_samples [0, 0, 0] [0, 0, 0] [1 / 3, 1 / 3, 1 / 3] 1 [[1, 0], [0, sqrt 3]] 0)
            = Inr three_stage_state"
    by (simp add: three_initial_stage_state)
  have r1: "round_start fixed_generator (sampler two_valued_log_likelihood flat_log_target_density 1)
        1 False 0 (length (rows three_samples)) 0 three_stage_state
          = (0, three_stage_state\<lparr>rng := 1\<rparr>)"
    by (simp add: len three_round_start)
  have r2: "round_start fixed_generator (sampler two_valued_log_likelihood low_log_target_density 1)
        1 False 0 (length (rows three_samples)) 0 three_stage_state
          = (0, three_stage_state\<lparr>rng := 1\<rparr>)"
    by (simp add: len three_round_start)
  have i1: "iterate_err 0 (mh_step fixed_generator
                (sampler two_valued_log_likelihood flat_log_target_density 1)
                two_valued_log_likelihood flat_log_target_density (1 / 3) 1 0 0 0 0)
              (three_stage_state\<lparr>rng := 1\<rparr>) = Inr (three_stage_state\<lparr>rng := 1\<rparr>)"
    by simp
  have i2: "iterate_err 0 (mh_step fixed_generator
                (sampler two_valued_log_likelihood low_log_target_density 1)
                two_valued_log_likelihood low_log_target_density (1 / 3) 1 0 0 0 0)
              (three_stage_state\<lparr>rng := 1\<rparr>) = Inr (three_stage_state\<lparr>rng := 1\<rparr>)"
    by simp
  note acc = stage_raises_on_accepted_proposal_of_wrong_size
    [OF h1 h2 h3 h4 f1 k r1 i1 m three_round_adapt_if_due three_round_propose_accepted]
  note rej = stage_raises_on_accepted_proposal_of_wrong_size
    [OF h1 h2 h3 h4 f2 k r2 i2 m three_round_adapt_if_due three_round_propose_rejected]
  have c1: "run_one_stage bisect fixed_generator
        (sampler two_valued_log_likelihood flat_log_target_density 1)
        three_samples [0, 0, 0] [0, 0, 0] 0 0 two_valued_log_likelihood flat_log_target_density
        1 (1 / 3) False 0
       = Some (Inl (ValueError ''Expected a single value, but got 2 values.''))"
    using acc l2 by blast
  have "mh_step fixed_generator (sampler two_valued_log_likelihood low_log_target_density 1)
        two_valued_log_likelihood low_log_target_density (1 / 3) 1 0 0 0 0
        (three_stage_state\<lparr>rng := 1\<rparr>)
       = Inr (three_stage_state\<lparr>rng := 1, step_count := 1\<rparr>\<lparr>rng := 3\<rparr>)"
    using rej by blast
  then have c2: "mh_step fixed_generator (sampler two_valued_log_likelihood low_log_target_density 1)
        two_valued_log_likelihood low_log_target_density (1 / 3) 1 0 0 0 0
        (three_stage_state\<lparr>rng := 1\<rparr>)
       = Inr (three_stage_state\<lparr>rng := 3, step_count := 1\<rparr>)"
    by simp
  show ?thesis
    using h1 h2 h3 h4 three_initial_stage_state three_round_start three_round_adapt_if_due
      three_round_propose_accepted l2 c1 three_round_propose_rejected c2
    by (intro conjI)
qed


text \<open>
  Claim C2 as stated fails: with a log-likelihood evaluator that returns two values for
  every row and a log-target-density under which every proposal is rejected, the whole
  stage returns its five results and raises nothing.
\<close>

theorem size_two_log_likelihood_stage_returns:
  "length (two_valued_log_likelihood \<lparr>ncols = 2, rows = [[1, 1]]\<rparr>) = 2
   \<and> run_one_stage bisect fixed_generator
       (sampler two_valued_log_likelihood low_log_target_density 1)
       three_samples [0, 0, 0] [0, 0, 0] 0 0 two_valued_log_likelihood low_log_target_density
       1 (1 / 3) False 0
      = Some (Inr (three_stage_result, 9))"
  using three_stage_rejecting [of 1 bisect two_valued_log_likelihood 1 0 0 "1 / 3"]
  by (simp add: two_valued_log_likelihood_def three_stage_result_def)

section \<open>The guard of the factorisation\<close>

lemma one_increment_beta: "increment_beta root_scalar [0] beta tau = Some (Inr 1)"
  using increment_beta_replicate [of 1 root_scalar 0 beta tau] by simp

lemma one_weights: "calculate_weights b [0] = Inr [1]"
  using calculate_weights_replicate [of 1 b 0] by simp

lemma one_log_evidence: "calculate_log_evidence b [0] = Inr 0"
  by (simp add: calculate_log_evidence_def logsumexp_def np_max_def)

lemma one_covariance: "get_scaled_proposal_covariance one_sample [1] sf = Inr (Two_dim None)"
  by (simp add: get_scaled_proposal_covariance_def np_cov_def one_sample_def Let_def)


section \<open>The threshold of the temperature step\<close>

lemma adapt_proposal_threshold_cov:
  "adapt_proposal (self\<lparr>threshold_cov := t\<rparr>) tar s = adapt_proposal self tar s"
  by (simp add: adapt_proposal_def)

lemma mh_step_threshold_cov:
  "mh_step G (self\<lparr>threshold_cov := t\<rparr>) llf ltf tar new_beta beta k bi index
     = mh_step G self llf ltf tar new_beta beta k bi index"
  by (intro ext)
     (simp add: mh_step_def adapt_if_due_def adapt_proposal_threshold_cov Let_def
        cong: sum.case_cong if_cong)

lemma stage_round_threshold_cov:
  "stage_round G (self\<lparr>threshold_cov := t\<rparr>) llf ltf tar new_beta beta dt bi n
     = stage_round G self llf ltf tar new_beta beta dt bi n"
  by (intro ext)
     (simp add: stage_round_def mh_step_threshold_cov Let_def cong: prod.case_cong if_cong)

text \<open>
  The stage never reads the configured threshold: with any other value of the
  attribute it does the same.
\<close>

lemma run_one_stage_threshold_cov:
  "run_one_stage root_scalar G (self\<lparr>threshold_cov := t\<rparr>) samples l lt beta g llf ltf sf tar
       dt bi
     = run_one_stage root_scalar G self samples l lt beta g llf ltf sf tar dt bi"
proof -
  have "rejuvenate G (self\<lparr>threshold_cov := t\<rparr>) samples l lt beta g llf ltf sf tar dt bi
          = rejuvenate G self samples l lt beta g llf ltf sf tar dt bi"
    by (intro ext)
       (simp add: rejuvenate_def stage_round_threshold_cov Let_def
          cong: sum.case_cong option.case_cong)
  then show ?thesis by (simp only: run_one_stage_def)
qed

lemma exp_two_ln_three: "exp (2 * ln 3) = (9 :: real)"
proof -
  have "exp (2 * ln (3 :: real)) = (exp (ln (3 :: real)))\<^sup>2" by (rule exp_double)
  then show ?thesis by simp
qed

lemma four_weights:
  "calculate_weights 0 four_log_likelihoods = Inr [1 / 4, 1 / 4, 1 / 4, 1 / 4]"
  "calculate_weights (1 / 2) four_log_likelihoods = Inr [1 / 8, 1 / 8, 3 / 8, 3 / 8]"
  "calculate_weights 1 four_log_likelihoods = Inr [1 / 20, 1 / 20, 9 / 20, 9 / 20]"
  by (simp_all add: calculate_weights_softmax four_log_likelihoods_def exp_two_ln_three)

lemma cov_weights_pairs:
  assumes "0 < a + b"
  shows "cov_weights [a, a, b, b] = \<bar>b - a\<bar> / (a + b)"
proof -
  have m: "nanmean [a, a, b, b] = (a + b) / 2" by (simp add: nanmean_def)
  have "nanmean (map (\<lambda>x. (x - (a + b) / 2)\<^sup>2) [a, a, b, b]) = ((b - a) / 2)\<^sup>2"
    by (simp add: nanmean_def power2_eq_square field_simps)
  then have "nanstd [a, a, b, b] = \<bar>b - a\<bar> / 2"
    by (simp add: nanstd_def m del: list.map)
  then show ?thesis using assms by (simp add: cov_weights_def m)
qed

lemma four_cov_objective:
  "cov_objective t four_log_likelihoods 0 = Inr (0 - t)"
  "cov_objective t four_log_likelihoods (1 / 2) = Inr (1 / 2 - t)"
  "cov_objective t four_log_likelihoods 1 = Inr (4 / 5 - t)"
  by (simp_all add: cov_objective_def four_weights cov_weights_pairs)

lemma bisect_iter_hits_root:
  "f (xa + dm * (1 / 2)) = Inr 0 \<Longrightarrow>
   bisect_iter (Suc n) f fa xa dm = Inr (True, xa + dm * (1 / 2))"
  by (simp add: Let_def)

lemma four_bisect:
  "bisect (cov_objective (1 / 2) four_log_likelihoods) 0 1 = Inr (True, 1 / 2)"
proof -
  have "bisect_iter (Suc 99) (cov_objective (1 / 2) four_log_likelihoods) (- (1 / 2)) 0 1
          = Inr (True, 0 + 1 * (1 / 2))"
    by (rule bisect_iter_hits_root) (simp add: four_cov_objective)
  then have "bisect_iter 100 (cov_objective (1 / 2) four_log_likelihoods) (- (1 / 2)) 0 1
          = Inr (True, 1 / 2)"
    by simp
  then show ?thesis
    by (simp add: bisect_def four_cov_objective del: bisect_iter.simps)
qed

lemma four_increment_beta_default:
  "increment_beta root_scalar four_log_likelihoods 0 default_threshold_cov = Some (Inr 1)"
  by (simp add: increment_beta_def four_cov_objective default_threshold_cov_def)

lemma four_increment_beta_half:
  "increment_beta bisect four_log_likelihoods 0 (1 / 2) = Some (Inr (1 / 2))"
  by (simp add: increment_beta_def four_cov_objective four_bisect)

lemma upt_4: "[0..<4] = [0, 1, 2, 3]"
  by (simp add: upt_rec numeral_eq_Suc)

lemma four_covariance:
  "get_scaled_proposal_covariance four_samples [1 / 20, 1 / 20, 9 / 20, 9 / 20] 1
     = Inr (Two_dim (Some [[10 / 59, 0], [0, 90 / 59]]))"
  by (simp add: get_scaled_proposal_covariance_def np_cov_def four_samples_def Let_def upt_2)

lemma four_cholesky:
  "np_linalg_cholesky (Two_dim (Some [[10 / 59, 0], [0, 90 / 59]]))
     = Inr (Some [[sqrt (10 / 59), 0], [0, sqrt (90 / 59)]])"
  by (simp add: np_linalg_cholesky_def Let_def)

lemma four_log_evidence: "\<exists>le. calculate_log_evidence 1 four_log_likelihoods = Inr le"
  by (simp add: calculate_log_evidence_def logsumexp_ln_sum four_log_likelihoods_def)

lemma four_stage:
  "\<exists>log_evidence.
     run_one_stage root_scalar fixed_generator (sampler llf low_log_target_density t)
       four_samples four_log_likelihoods [0, 0, 0, 0] 0 g llf low_log_target_density 1 tar False 0
     = Some (Inr ((\<lparr>ncols = 2, rows = [[1, 0], [1, 0], [1, 0], [1, 0]]\<rparr>, [0, 0, 0, 0],
                   [0, 0, 0, 0], 1, log_evidence), g + 12))"
proof -
  from four_log_evidence obtain le where le: "calculate_log_evidence 1 four_log_likelihoods = Inr le"
    by blast
  have "run_one_stage root_scalar fixed_generator (sampler llf low_log_target_density t)
       four_samples four_log_likelihoods [0, 0, 0, 0] 0 g llf low_log_target_density 1 tar False 0
     = Some (Inr ((\<lparr>ncols = 2, rows = [[1, 0], [1, 0], [1, 0], [1, 0]]\<rparr>, [0, 0, 0, 0],
                   [0, 0, 0, 0], 1, le), g + 12))"
    apply (simp add: run_one_stage_def four_increment_beta_default rejuvenate_def le
        four_weights four_covariance four_cholesky)
    apply (simp add: four_samples_def four_log_likelihoods_def sampler_def fixed_generator_def
        upt_4 stage_round_def mh_step_def adapt_if_due_def propose_def get_item_def set_item_def
        set_row_def emit_row_def matvec_def log_le_def low_log_target_density_def Let_def)
    done
  then show ?thesis by blast
qed

text \<open>
  Claim C1 fails on the code. A sampler configured with the threshold 1/2, on four
  samples whose log-likelihoods are \<open>0, 0, 2 ln 3, 2 ln 3\<close> at beta 0:
  \<^verbatim>\<open>_increment_beta\<close> with the configured threshold would step to beta 1/2 (the
  coefficient of variation at the increment 1/2 is exactly 1/2), but the stage steps
  with the default threshold 1 and returns the new beta 1.
\<close>

theorem run_one_stage_steps_with_default_threshold:
  "threshold_cov (sampler scalar_log_likelihood low_log_target_density (1 / 2)) = 1 / 2
   \<and> increment_beta bisect four_log_likelihoods 0
        (threshold_cov (sampler scalar_log_likelihood low_log_target_density (1 / 2)))
       = Some (Inr (1 / 2))
   \<and> (\<exists>log_evidence.
         run_one_stage bisect fixed_generator
           (sampler scalar_log_likelihood low_log_target_density (1 / 2))
           four_samples four_log_likelihoods [0, 0, 0, 0] 0 0 scalar_log_likelihood
           low_log_target_density 1 (1 / 3) False 0
         = Some (Inr ((\<lparr>ncols = 2, rows = [[1, 0], [1, 0], [1, 0], [1, 0]]\<rparr>, [0, 0, 0, 0],
                       [0, 0, 0, 0], 1, log_evidence), 12)))"
proof -
  have t: "threshold_cov (sampler scalar_log_likelihood low_log_target_density (1 / 2)) = 1 / 2"
    by (simp add: sampler_def)
  from four_stage [of bisect scalar_log_likelihood "1 / 2" 0 "1 / 3"]
  show ?thesis unfolding t using four_increment_beta_half by simp
qed

section \<open>The warm start\<close>

subsection \<open>Rounding to a double\<close>

text \<open>
  A number between two consecutive powers of two is rounded on the grid of that binade;
  a number of at most 53 significant bits is not changed, so a sum of ones is exact.
\<close>

lemma round_to_double_binade:
  assumes "2 powr of_int e \<le> \<bar>x\<bar>" and "\<bar>x\<bar> < 2 powr (of_int e + 1)"
    and "of_int (round_half_even (x / 2 powr (of_int e - 52))) * 2 powr (of_int e - 52) = y"
  shows "round_to_double x = y"
proof -
  have pos: "0 < \<bar>x\<bar>" using assms(1) by (smt (verit) powr_gt_zero)
  have "of_int e \<le> log 2 \<bar>x\<bar>" using assms(1) pos by (simp add: le_log_iff)
  moreover have "log 2 \<bar>x\<bar> < of_int e + 1" using assms(2) pos by (simp add: log_less_iff)
  ultimately have "\<lfloor>log 2 \<bar>x\<bar>\<rfloor> = e" by (rule floor_unique)
  then show ?thesis using pos assms(3) by (simp add: round_to_double_def Let_def)
qed

lemma two_powr_neg_numeral: "(2 :: real) powr - numeral n = 1 / 2 ^ numeral n"
  by (simp add: powr_minus_divide)

lemmas rd_simps = round_half_even_def Let_def two_powr_neg_numeral

lemma round_to_double_0 [simp]: "round_to_double 0 = 0"
  by (simp add: round_to_double_def)

lemma round_half_even_of_int [simp]: "round_half_even (of_int z) = z"
  by (simp add: round_half_even_def)

lemma round_to_double_of_nat:
  assumes "n < 2 ^ 53"
  shows "round_to_double (real n) = real n"
proof (cases "n = 0")
  case True
  then show ?thesis by simp
next
  case False
  define x where "x = real n"
  define e where "e = \<lfloor>log 2 \<bar>x\<bar>\<rfloor>"
  have x1: "1 \<le> x" using False by (simp add: x_def)
  then have xpos: "0 < x" by simp
  have lo: "of_int e \<le> log 2 x" and hi: "log 2 x < of_int e + 1"
    using xpos by (simp_all add: e_def)
  have "0 \<le> log 2 x" using x1 by simp
  with hi have e0: "0 \<le> e" by linarith
  have "x < 2 ^ 53" using assms by (simp add: x_def)
  then have "log 2 x < 53" using xpos by (simp add: log_less_iff)
  with lo have e52: "e \<le> 52" by linarith
  define j where "j = nat (52 - e)"
  have ej: "real_of_int e - 52 = - real j" using e52 by (simp add: j_def)
  have ulp: "(2 :: real) powr (real_of_int e - 52) = 1 / 2 ^ j"
    unfolding ej by (simp add: powr_minus_divide powr_realpow)
  have "x / (1 / 2 ^ j) = of_int (int n * 2 ^ j)" by (simp add: x_def)
  then have "round_half_even (x / (1 / 2 ^ j)) = int n * 2 ^ j"
    by (simp only: round_half_even_of_int)
  then have "of_int (round_half_even (x / (1 / 2 ^ j))) * (1 / 2 ^ j) = x"
    by (simp add: x_def)
  then have b3: "of_int (round_half_even (x / 2 powr (of_int e - 52))) * 2 powr (of_int e - 52) = x"
    by (simp only: ulp)
  have b1: "2 powr of_int e \<le> \<bar>x\<bar>" using lo xpos by (simp add: le_log_iff)
  have b2: "\<bar>x\<bar> < 2 powr (of_int e + 1)" using hi xpos by (simp add: log_less_iff)
  show ?thesis unfolding x_def [symmetric] using b1 b2 b3 by (rule round_to_double_binade)
qed

lemma round_to_double_1 [simp]: "round_to_double 1 = 1"
  using round_to_double_of_nat [of 1] by simp

lemma foldl_add_ones:
  "a + n < 2 ^ 53 \<Longrightarrow>
   foldl (\<lambda>acc x. round_to_double (acc + x)) (real a) (replicate n 1) = real (a + n)"
proof (induction n arbitrary: a)
  case 0
  show ?case by simp
next
  case (Suc n)
  have "round_to_double (real a + 1) = real (Suc a)"
    using round_to_double_of_nat [of "Suc a"] Suc.prems by (simp add: add.commute)
  then show ?case using Suc.IH [of "Suc a"] Suc.prems by simp
qed

lemma sum_double_ones: "n < 2 ^ 53 \<Longrightarrow> sum_double (replicate n 1) = real n"
  using foldl_add_ones [of 0 n] by (simp add: sum_double_def)

lemma warm_start_weights_double_identity:
  assumes "prev \<noteq> []" and "length prev < 2 ^ 53"
  shows "calculate_weights_warm_start_double b prev prev
           = Inr (replicate (length prev) (round_to_double (1 / real (length prev))))"
proof -
  have d: "np_subtract prev prev = Inr (replicate (length prev) 0)"
    by (simp add: np_subtract_def map2_minus_self)
  have m: "np_max (replicate (length prev) 0) = Inr 0"
    using assms(1) by (simp add: np_max_def)
  show ?thesis
    using assms(2)
    by (simp add: calculate_weights_warm_start_double_def d m sum_double_ones)
qed


subsection \<open>The computed coefficient of variation of equal weights\<close>

text \<open>
  The double nearest to 1/7 is \<^verbatim>\<open>2573485501354569 / 2^54\<close>. Seven of them add up, with
  three roundings on the way, to \<^verbatim>\<open>1 - 2^-52\<close>, the mean is one unit in the last place
  below each weight, every deviation is \<^verbatim>\<open>2^-55\<close>, and so is the standard deviation.
\<close>

lemma round_to_double_seventh: "round_to_double (1 / 7) = 2573485501354569 / 2 ^ 54"
  by (rule round_to_double_binade [where e = "- 3"]) (simp_all add: rd_simps)

lemma replicate_7: "replicate 7 x = [x, x, x, x, x, x, x]"
  by (simp add: numeral_eq_Suc)

lemma sum_double_7:
  "sum_double (replicate 7 x)
     = round_to_double (round_to_double (round_to_double (round_to_double (round_to_double
         (round_to_double (round_to_double (0 + x) + x) + x) + x) + x) + x) + x)"
  by (simp only: replicate_7 sum_double_def foldl.simps)

lemma seven_weights_sum: "sum_double (replicate 7 (2573485501354569 / 2 ^ 54)) = 4503599627370495 / 2 ^ 52"
proof -
  have s1: "round_to_double (0 + 2573485501354569 / 2 ^ 54) = 2573485501354569 / 2 ^ 54"
    by (rule round_to_double_binade [where e = "- 3"]) (simp_all add: rd_simps)
  have s2: "round_to_double (2573485501354569 / 2 ^ 54 + 2573485501354569 / 2 ^ 54) = 2573485501354569 / 2 ^ 53"
    by (rule round_to_double_binade [where e = "- 2"]) (simp_all add: rd_simps)
  have s3: "round_to_double (2573485501354569 / 2 ^ 53 + 2573485501354569 / 2 ^ 54) = 7720456504063707 / 2 ^ 54"
    by (rule round_to_double_binade [where e = "- 2"]) (simp_all add: rd_simps)
  have s4: "round_to_double (7720456504063707 / 2 ^ 54 + 2573485501354569 / 2 ^ 54) = 2573485501354569 / 2 ^ 52"
    by (rule round_to_double_binade [where e = "- 1"]) (simp_all add: rd_simps)
  have s5: "round_to_double (2573485501354569 / 2 ^ 52 + 2573485501354569 / 2 ^ 54) = 3216856876693211 / 2 ^ 52"
    by (rule round_to_double_binade [where e = "- 1"]) (simp_all add: rd_simps)
  have s6: "round_to_double (3216856876693211 / 2 ^ 52 + 2573485501354569 / 2 ^ 54) = 3860228252031853 / 2 ^ 52"
    by (rule round_to_double_binade [where e = "- 1"]) (simp_all add: rd_simps)
  have s7: "round_to_double (3860228252031853 / 2 ^ 52 + 2573485501354569 / 2 ^ 54) = 4503599627370495 / 2 ^ 52"
    by (rule round_to_double_binade [where e = "- 1"]) (simp_all add: rd_simps)
  show ?thesis by (simp only: sum_double_7 s1 s2 s3 s4 s5 s6 s7)
qed

lemma seven_weights_mean: "nanmean_double (replicate 7 (2573485501354569 / 2 ^ 54)) = 5146971002709137 / 2 ^ 55"
proof -
  have m: "round_to_double (4503599627370495 / 2 ^ 52 / 7) = 5146971002709137 / 2 ^ 55"
    by (rule round_to_double_binade [where e = "- 3"]) (simp_all add: rd_simps)
  show ?thesis
    by (simp only: nanmean_double_def seven_weights_sum length_replicate of_nat_numeral m)
qed

lemma seven_squares_sum: "sum_double (replicate 7 (1 / 2 ^ 110)) = 7 / 2 ^ 110"
proof -
  have t1: "round_to_double (0 + 1 / 2 ^ 110) = 1 / 2 ^ 110"
    by (rule round_to_double_binade [where e = "- 110"]) (simp_all add: rd_simps)
  have t2: "round_to_double (1 / 2 ^ 110 + 1 / 2 ^ 110) = 1 / 2 ^ 109"
    by (rule round_to_double_binade [where e = "- 109"]) (simp_all add: rd_simps)
  have t3: "round_to_double (1 / 2 ^ 109 + 1 / 2 ^ 110) = 3 / 2 ^ 110"
    by (rule round_to_double_binade [where e = "- 109"]) (simp_all add: rd_simps)
  have t4: "round_to_double (3 / 2 ^ 110 + 1 / 2 ^ 110) = 1 / 2 ^ 108"
    by (rule round_to_double_binade [where e = "- 108"]) (simp_all add: rd_simps)
  have t5: "round_to_double (1 / 2 ^ 108 + 1 / 2 ^ 110) = 5 / 2 ^ 110"
    by (rule round_to_double_binade [where e = "- 108"]) (simp_all add: rd_simps)
  have t6: "round_to_double (5 / 2 ^ 110 + 1 / 2 ^ 110) = 3 / 2 ^ 109"
    by (rule round_to_double_binade [where e = "- 108"]) (simp_all add: rd_simps)
  have t7: "round_to_double (3 / 2 ^ 109 + 1 / 2 ^ 110) = 7 / 2 ^ 110"
    by (rule round_to_double_binade [where e = "- 108"]) (simp_all add: rd_simps)
  show ?thesis by (simp only: sum_double_7 t1 t2 t3 t4 t5 t6 t7)
qed

lemma seven_weights_std: "nanstd_double (replicate 7 (2573485501354569 / 2 ^ 54)) = 1 / 2 ^ 55"
proof -
  have d: "round_to_double (2573485501354569 / 2 ^ 54 - 5146971002709137 / 2 ^ 55) = 1 / 2 ^ 55"
    by (rule round_to_double_binade [where e = "- 55"]) (simp_all add: rd_simps)
  have q: "round_to_double (1 / 2 ^ 55 * (1 / 2 ^ 55)) = 1 / 2 ^ 110"
    by (rule round_to_double_binade [where e = "- 110"]) (simp_all add: rd_simps)
  have v: "round_to_double (7 / 2 ^ 110 / 7) = 1 / 2 ^ 110"
    by (rule round_to_double_binade [where e = "- 110"]) (simp_all add: rd_simps)
  have r: "round_to_double (1 / 2 ^ 55) = 1 / 2 ^ 55"
    by (rule round_to_double_binade [where e = "- 55"]) (simp_all add: rd_simps)
  have "(1 / 2 ^ 55 :: real)\<^sup>2 = 1 / 2 ^ 110" by (simp add: power2_eq_square)
  then have root: "sqrt (1 / 2 ^ 110) = 1 / 2 ^ 55" by (intro real_sqrt_unique) simp_all
  show ?thesis
    by (simp only: nanstd_double_def Let_def seven_weights_mean map_replicate d q
        seven_squares_sum length_replicate of_nat_numeral v root r)
qed

lemma seven_cov_weights_double:
  "cov_weights_double (replicate 7 (round_to_double (1 / 7))) = 3940649673949185 / 2 ^ 104"
proof -
  have c: "round_to_double (1 / 2 ^ 55 / (5146971002709137 / 2 ^ 55)) = 3940649673949185 / 2 ^ 104"
    by (rule round_to_double_binade [where e = "- 53"]) (simp_all add: rd_simps)
  show ?thesis
    by (simp only: cov_weights_double_def round_to_double_seventh seven_weights_std
        seven_weights_mean c)
qed

text \<open>
  Fewer than seven equal weights: their sum is rounded to 1 and their mean to the weight
  itself, so the computed coefficient of variation is 0. Seven weights give the largest
  value among the populations of fewer than eight.
\<close>

lemma replicate_1: "replicate 1 x = [x]"
  by (simp add: numeral_eq_Suc)

lemma sum_double_1:
  "sum_double (replicate 1 x)
     = round_to_double (0 + x)"
  by (simp only: replicate_1 sum_double_def foldl.simps)

lemma cov_weights_double_one:
  "cov_weights_double (replicate 1 (round_to_double (1 / 1))) = 0"
proof -
  have w: "round_to_double (1 / 1) = 1"
    by (rule round_to_double_binade [where e = "0"]) (simp_all add: rd_simps)
  have s1: "round_to_double (0 + 1) = 1"
    by (rule round_to_double_binade [where e = "0"]) (simp_all add: rd_simps)
  have m: "round_to_double (1 / 1) = 1"
    by (rule round_to_double_binade [where e = "0"]) (simp_all add: rd_simps)
  have mean: "nanmean_double (replicate 1 1) = 1"
    by (simp only: nanmean_double_def sum_double_1 s1 length_replicate of_nat_numeral
        of_nat_1 m)
  have d: "round_to_double (1 - 1) = 0"
    by simp
  have q: "round_to_double (0 * 0) = 0" by simp
  have t: "round_to_double (0 + 0) = 0" by simp
  have v: "round_to_double (0 / 1) = 0" by simp
  have std: "nanstd_double (replicate 1 1) = 0"
    by (simp only: nanstd_double_def Let_def mean map_replicate d q sum_double_1 t
        length_replicate of_nat_numeral of_nat_1 v real_sqrt_zero round_to_double_0)
  have c: "round_to_double (0 / 1) = 0" by simp
  show ?thesis by (simp only: cov_weights_double_def w std mean c)
qed

lemma replicate_2: "replicate 2 x = [x, x]"
  by (simp add: numeral_eq_Suc)

lemma sum_double_2:
  "sum_double (replicate 2 x)
     = round_to_double (round_to_double (0 + x) + x)"
  by (simp only: replicate_2 sum_double_def foldl.simps)

lemma cov_weights_double_two:
  "cov_weights_double (replicate 2 (round_to_double (1 / 2))) = 0"
proof -
  have w: "round_to_double (1 / 2) = 1 / 2 ^ 1"
    by (rule round_to_double_binade [where e = "- 1"]) (simp_all add: rd_simps)
  have s1: "round_to_double (0 + 1 / 2 ^ 1) = 1 / 2 ^ 1"
    by (rule round_to_double_binade [where e = "- 1"]) (simp_all add: rd_simps)
  have s2: "round_to_double (1 / 2 ^ 1 + 1 / 2 ^ 1) = 1"
    by (rule round_to_double_binade [where e = "0"]) (simp_all add: rd_simps)
  have m: "round_to_double (1 / 2) = 1 / 2 ^ 1"
    by (rule round_to_double_binade [where e = "- 1"]) (simp_all add: rd_simps)
  have mean: "nanmean_double (replicate 2 (1 / 2 ^ 1)) = 1 / 2 ^ 1"
    by (simp only: nanmean_double_def sum_double_2 s1 s2 length_replicate of_nat_numeral
        of_nat_1 m)
  have d: "round_to_double (1 / 2 ^ 1 - 1 / 2 ^ 1) = 0"
    by simp
  have q: "round_to_double (0 * 0) = 0" by simp
  have t: "round_to_double (0 + 0) = 0" by simp
  have v: "round_to_double (0 / 2) = 0" by simp
  have std: "nanstd_double (replicate 2 (1 / 2 ^ 1)) = 0"
    by (simp only: nanstd_double_def Let_def mean map_replicate d q sum_double_2 t
        length_replicate of_nat_numeral of_nat_1 v real_sqrt_zero round_to_double_0)
  have c: "round_to_double (0 / (1 / 2 ^ 1)) = 0" by simp
  show ?thesis by (simp only: cov_weights_double_def w std mean c)
qed

lemma replicate_3: "replicate 3 x = [x, x, x]"
  by (simp add: numeral_eq_Suc)

lemma sum_double_3:
  "sum_double (replicate 3 x)
     = round_to_double (round_to_double (round_to_double (0 + x) + x) + x)"
  by (simp only: replicate_3 sum_double_def foldl.simps)

lemma cov_weights_double_three:
  "cov_weights_double (replicate 3 (round_to_double (1 / 3))) = 0"
proof -
  have w: "round_to_double (1 / 3) = 6004799503160661 / 2 ^ 54"
    by (rule round_to_double_binade [where e = "- 2"]) (simp_all add: rd_simps)
  have s1: "round_to_double (0 + 6004799503160661 / 2 ^ 54) = 6004799503160661 / 2 ^ 54"
    by (rule round_to_double_binade [where e = "- 2"]) (simp_all add: rd_simps)
  have s2: "round_to_double (6004799503160661 / 2 ^ 54 + 6004799503160661 / 2 ^ 54) = 6004799503160661 / 2 ^ 53"
    by (rule round_to_double_binade [where e = "- 1"]) (simp_all add: rd_simps)
  have s3: "round_to_double (6004799503160661 / 2 ^ 53 + 6004799503160661 / 2 ^ 54) = 1"
    by (rule round_to_double_binade [where e = "- 1"]) (simp_all add: rd_simps)
  have m: "round_to_double (1 / 3) = 6004799503160661 / 2 ^ 54"
    by (rule round_to_double_binade [where e = "- 2"]) (simp_all add: rd_simps)
  have mean: "nanmean_double (replicate 3 (6004799503160661 / 2 ^ 54)) = 6004799503160661 / 2 ^ 54"
    by (simp only: nanmean_double_def sum_double_3 s1 s2 s3 length_replicate of_nat_numeral
        of_nat_1 m)
  have d: "round_to_double (6004799503160661 / 2 ^ 54 - 6004799503160661 / 2 ^ 54) = 0"
    by simp
  have q: "round_to_double (0 * 0) = 0" by simp
  have t: "round_to_double (0 + 0) = 0" by simp
  have v: "round_to_double (0 / 3) = 0" by simp
  have std: "nanstd_double (replicate 3 (6004799503160661 / 2 ^ 54)) = 0"
    by (simp only: nanstd_double_def Let_def mean map_replicate d q sum_double_3 t
        length_replicate of_nat_numeral of_nat_1 v real_sqrt_zero round_to_double_0)
  have c: "round_to_double (0 / (6004799503160661 / 2 ^ 54)) = 0" by simp
  show ?thesis by (simp only: cov_weights_double_def w std mean c)
qed

lemma replicate_4: "replicate 4 x = [x, x, x, x]"
  by (simp add: numeral_eq_Suc)

lemma sum_double_4:
  "sum_double (replicate 4 x)
     = round_to_double (round_to_double (round_to_double (round_to_double (0 + x) + x) + x) + x)"
  by (simp only: replicate_4 sum_double_def foldl.simps)

lemma cov_weights_double_four:
  "cov_weights_double (replicate 4 (round_to_double (1 / 4))) = 0"
proof -
  have w: "round_to_double (1 / 4) = 1 / 2 ^ 2"
    by (rule round_to_double_binade [where e = "- 2"]) (simp_all add: rd_simps)
  have s1: "round_to_double (0 + 1 / 2 ^ 2) = 1 / 2 ^ 2"
    by (rule round_to_double_binade [where e = "- 2"]) (simp_all add: rd_simps)
  have s2: "round_to_double (1 / 2 ^ 2 + 1 / 2 ^ 2) = 1 / 2 ^ 1"
    by (rule round_to_double_binade [where e = "- 1"]) (simp_all add: rd_simps)
  have s3: "round_to_double (1 / 2 ^ 1 + 1 / 2 ^ 2) = 3 / 2 ^ 2"
    by (rule round_to_double_binade [where e = "- 1"]) (simp_all add: rd_simps)
  have s4: "round_to_double (3 / 2 ^ 2 + 1 / 2 ^ 2) = 1"
    by (rule round_to_double_binade [where e = "0"]) (simp_all add: rd_simps)
  have m: "round_to_double (1 / 4) = 1 / 2 ^ 2"
    by (rule round_to_double_binade [where e = "- 2"]) (simp_all add: rd_simps)
  have mean: "nanmean_double (replicate 4 (1 / 2 ^ 2)) = 1 / 2 ^ 2"
    by (simp only: nanmean_double_def sum_double_4 s1 s2 s3 s4 length_replicate of_nat_numeral
        of_nat_1 m)
  have d: "round_to_double (1 / 2 ^ 2 - 1 / 2 ^ 2) = 0"
    by simp
  have q: "round_to_double (0 * 0) = 0" by simp
  have t: "round_to_double (0 + 0) = 0" by simp
  have v: "round_to_double (0 / 4) = 0" by simp
  have std: "nanstd_double (replicate 4 (1 / 2 ^ 2)) = 0"
    by (simp only: nanstd_double_def Let_def mean map_replicate d q sum_double_4 t
        length_replicate of_nat_numeral of_nat_1 v real_sqrt_zero round_to_double_0)
  have c: "round_to_double (0 / (1 / 2 ^ 2)) = 0" by simp
  show ?thesis by (simp only: cov_weights_double_def w std mean c)
qed

lemma replicate_5: "replicate 5 x = [x, x, x, x, x]"
  by (simp add: numeral_eq_Suc)

lemma sum_double_5:
  "sum_double (replicate 5 x)
     = round_to_double (round_to_double (round_to_double (round_to_double (round_to_double (0 + x) + x) + x) + x) + x)"
  by (simp only: replicate_5 sum_double_def foldl.simps)

lemma cov_weights_double_five:
  "cov_weights_double (replicate 5 (round_to_double (1 / 5))) = 0"
proof -
  have w: "round_to_double (1 / 5) = 3602879701896397 / 2 ^ 54"
    by (rule round_to_double_binade [where e = "- 3"]) (simp_all add: rd_simps)
  have s1: "round_to_double (0 + 3602879701896397 / 2 ^ 54) = 3602879701896397 / 2 ^ 54"
    by (rule round_to_double_binade [where e = "- 3"]) (simp_all add: rd_simps)
  have s2: "round_to_double (3602879701896397 / 2 ^ 54 + 3602879701896397 / 2 ^ 54) = 3602879701896397 / 2 ^ 53"
    by (rule round_to_double_binade [where e = "- 2"]) (simp_all add: rd_simps)
  have s3: "round_to_double (3602879701896397 / 2 ^ 53 + 3602879701896397 / 2 ^ 54) = 1351079888211149 / 2 ^ 51"
    by (rule round_to_double_binade [where e = "- 1"]) (simp_all add: rd_simps)
  have s4: "round_to_double (1351079888211149 / 2 ^ 51 + 3602879701896397 / 2 ^ 54) = 3602879701896397 / 2 ^ 52"
    by (rule round_to_double_binade [where e = "- 1"]) (simp_all add: rd_simps)
  have s5: "round_to_double (3602879701896397 / 2 ^ 52 + 3602879701896397 / 2 ^ 54) = 1"
    by (rule round_to_double_binade [where e = "0"]) (simp_all add: rd_simps)
  have m: "round_to_double (1 / 5) = 3602879701896397 / 2 ^ 54"
    by (rule round_to_double_binade [where e = "- 3"]) (simp_all add: rd_simps)
  have mean: "nanmean_double (replicate 5 (3602879701896397 / 2 ^ 54)) = 3602879701896397 / 2 ^ 54"
    by (simp only: nanmean_double_def sum_double_5 s1 s2 s3 s4 s5 length_replicate of_nat_numeral
        of_nat_1 m)
  have d: "round_to_double (3602879701896397 / 2 ^ 54 - 3602879701896397 / 2 ^ 54) = 0"
    by simp
  have q: "round_to_double (0 * 0) = 0" by simp
  have t: "round_to_double (0 + 0) = 0" by simp
  have v: "round_to_double (0 / 5) = 0" by simp
  have std: "nanstd_double (replicate 5 (3602879701896397 / 2 ^ 54)) = 0"
    by (simp only: nanstd_double_def Let_def mean map_replicate d q sum_double_5 t
        length_replicate of_nat_numeral of_nat_1 v real_sqrt_zero round_to_double_0)
  have c: "round_to_double (0 / (3602879701896397 / 2 ^ 54)) = 0" by simp
  show ?thesis by (simp only: cov_weights_double_def w std mean c)
qed

lemma replicate_6: "replicate 6 x = [x, x, x, x, x, x]"
  by (simp add: numeral_eq_Suc)

lemma sum_double_6:
  "sum_double (replicate 6 x)
     = round_to_double (round_to_double (round_to_double (round_to_double (round_to_double (round_to_double (0 + x) + x) + x) + x) + x) + x)"
  by (simp only: replicate_6 sum_double_def foldl.simps)

lemma cov_weights_double_six:
  "cov_weights_double (replicate 6 (round_to_double (1 / 6))) = 0"
proof -
  have w: "round_to_double (1 / 6) = 6004799503160661 / 2 ^ 55"
    by (rule round_to_double_binade [where e = "- 3"]) (simp_all add: rd_simps)
  have s1: "round_to_double (0 + 6004799503160661 / 2 ^ 55) = 6004799503160661 / 2 ^ 55"
    by (rule round_to_double_binade [where e = "- 3"]) (simp_all add: rd_simps)
  have s2: "round_to_double (6004799503160661 / 2 ^ 55 + 6004799503160661 / 2 ^ 55) = 6004799503160661 / 2 ^ 54"
    by (rule round_to_double_binade [where e = "- 2"]) (simp_all add: rd_simps)
  have s3: "round_to_double (6004799503160661 / 2 ^ 54 + 6004799503160661 / 2 ^ 55) = 1 / 2 ^ 1"
    by (rule round_to_double_binade [where e = "- 2"]) (simp_all add: rd_simps)
  have s4: "round_to_double (1 / 2 ^ 1 + 6004799503160661 / 2 ^ 55) = 6004799503160661 / 2 ^ 53"
    by (rule round_to_double_binade [where e = "- 1"]) (simp_all add: rd_simps)
  have s5: "round_to_double (6004799503160661 / 2 ^ 53 + 6004799503160661 / 2 ^ 55) = 3752999689475413 / 2 ^ 52"
    by (rule round_to_double_binade [where e = "- 1"]) (simp_all add: rd_simps)
  have s6: "round_to_double (3752999689475413 / 2 ^ 52 + 6004799503160661 / 2 ^ 55) = 9007199254740991 / 2 ^ 53"
    by (rule round_to_double_binade [where e = "- 1"]) (simp_all add: rd_simps)
  have m: "round_to_double (9007199254740991 / 2 ^ 53 / 6) = 6004799503160661 / 2 ^ 55"
    by (rule round_to_double_binade [where e = "- 3"]) (simp_all add: rd_simps)
  have mean: "nanmean_double (replicate 6 (6004799503160661 / 2 ^ 55)) = 6004799503160661 / 2 ^ 55"
    by (simp only: nanmean_double_def sum_double_6 s1 s2 s3 s4 s5 s6 length_replicate of_nat_numeral
        of_nat_1 m)
  have d: "round_to_double (6004799503160661 / 2 ^ 55 - 6004799503160661 / 2 ^ 55) = 0"
    by simp
  have q: "round_to_double (0 * 0) = 0" by simp
  have t: "round_to_double (0 + 0) = 0" by simp
  have v: "round_to_double (0 / 6) = 0" by simp
  have std: "nanstd_double (replicate 6 (6004799503160661 / 2 ^ 55)) = 0"
    by (simp only: nanstd_double_def Let_def mean map_replicate d q sum_double_6 t
        length_replicate of_nat_numeral of_nat_1 v real_sqrt_zero round_to_double_0)
  have c: "round_to_double (0 / (6004799503160661 / 2 ^ 55)) = 0" by simp
  show ?thesis by (simp only: cov_weights_double_def w std mean c)
qed

lemma cov_weights_double_equal_weights:
  assumes "0 < n" and "n < 8"
  shows "cov_weights_double (replicate n (round_to_double (1 / real n)))
           \<le> 3940649673949185 / 2 ^ 104"
proof -
  from assms consider "n = 1" | "n = 2" | "n = 3" | "n = 4" | "n = 5" | "n = 6" | "n = 7"
    by linarith
  then show ?thesis
  proof cases
    case 1
    have e: "cov_weights_double (replicate 1 (round_to_double (1 / real 1))) = 0"
      by (simp only: of_nat_numeral of_nat_1 cov_weights_double_one)
    show ?thesis unfolding 1 e by simp
  next
    case 2
    have e: "cov_weights_double (replicate 2 (round_to_double (1 / real 2))) = 0"
      by (simp only: of_nat_numeral of_nat_1 cov_weights_double_two)
    show ?thesis unfolding 2 e by simp
  next
    case 3
    have e: "cov_weights_double (replicate 3 (round_to_double (1 / real 3))) = 0"
      by (simp only: of_nat_numeral of_nat_1 cov_weights_double_three)
    show ?thesis unfolding 3 e by simp
  next
    case 4
    have e: "cov_weights_double (replicate 4 (round_to_double (1 / real 4))) = 0"
      by (simp only: of_nat_numeral of_nat_1 cov_weights_double_four)
    show ?thesis unfolding 4 e by simp
  next
    case 5
    have e: "cov_weights_double (replicate 5 (round_to_double (1 / real 5))) = 0"
      by (simp only: of_nat_numeral of_nat_1 cov_weights_double_five)
    show ?thesis unfolding 5 e by simp
  next
    case 6
    have e: "cov_weights_double (replicate 6 (round_to_double (1 / real 6))) = 0"
      by (simp only: of_nat_numeral of_nat_1 cov_weights_double_six)
    show ?thesis unfolding 6 e by simp
  next
    case 7
    have e: "cov_weights_double (replicate 7 (round_to_double (1 / real 7))) = 3940649673949185 / 2 ^ 104"
      by (simp only: of_nat_numeral of_nat_1 seven_cov_weights_double)
    show ?thesis unfolding 7 e by simp
  qed
qed


subsection \<open>The selected stage\<close>

lemma prior_max: "Max (set (map fst prior_samples)) = 1"
  by (simp add: prior_samples_def)

lemma prior_lookups:
  "map_of prior_samples 0 = Some three_samples" "map_of prior_samples 1 = Some three_samples"
  "map_of prior_betas 0 = Some 0" "map_of prior_betas 1 = Some 1"
  "map_of prior_log_likelihoods 0 = Some [0, 0, 0]"
  "map_of prior_log_likelihoods 1 = Some [2, 0, - 2]"
  by (simp_all add: prior_samples_def prior_betas_def prior_log_likelihoods_def)

lemma row_sum_three: "row_sum_log_likelihood three_samples = [2, 0, - 2]"
  by (simp add: row_sum_log_likelihood_def three_samples_def)

lemma seven_prior_max: "Max (set (map fst seven_prior_samples)) = 1"
  by (simp add: seven_prior_samples_def)

lemma seven_prior_lookups:
  "map_of seven_prior_samples 0 = Some seven_samples"
  "map_of seven_prior_samples 1 = Some seven_samples"
  "map_of seven_prior_log_likelihoods 0 = Some [0, 1, 2, 3, 4, 5, 6]"
  "map_of seven_prior_log_likelihoods 1 = Some [0, 1, 2, 3, 4, 5, 6]"
  by (simp_all add: seven_prior_samples_def seven_prior_log_likelihoods_def)

lemma row_sum_seven: "row_sum_log_likelihood seven_samples = [0, 1, 2, 3, 4, 5, 6]"
  by (simp add: row_sum_log_likelihood_def seven_samples_def)

lemma seven_weights_double:
  "calculate_weights_warm_start_double b [0, 1, 2, 3, 4, 5, 6] [0, 1, 2, 3, 4, 5, 6]
     = Inr (replicate 7 (round_to_double (1 / 7)))"
proof -
  have len: "length [0, 1, 2, 3, 4, 5, 6 :: real] = 7" by simp
  have "length [0, 1, 2, 3, 4, 5, 6 :: real] < 2 ^ 53" unfolding len by simp
  from warm_start_weights_double_identity [OF _ this, of b]
  show ?thesis by (simp only: len of_nat_numeral) simp
qed

lemma seven_prior_selection:
  "calculate_warm_start_stage_double row_sum_log_likelihood seven_prior_samples prior_betas
     seven_prior_log_likelihoods tau
     = (if 3940649673949185 / 2 ^ 104 < tau then Inr 1 else Inr 0)"
proof -
  have "rev (sort (map fst seven_prior_samples)) = [1, 0]"
    by (simp add: seven_prior_samples_def)
  then show ?thesis
    by (simp add: calculate_warm_start_stage_double_def seven_prior_lookups prior_lookups
        row_sum_seven seven_weights_double seven_cov_weights_double)
qed


lemma later_lookups:
  "map_of later_samples 1 = Some four_samples" "map_of later_samples 2 = Some four_samples"
  "map_of later_betas 1 = Some (1 / 2)" "map_of later_betas 2 = Some 1"
  "map_of later_log_likelihoods 1 = Some [0, 0, 0, 0]"
  "map_of later_log_likelihoods 2 = Some [0, 0, 0, 0]"
  by (simp_all add: later_samples_def later_betas_def later_log_likelihoods_def)

lemma second_coordinate_four:
  "second_coordinate_log_likelihood four_samples = four_log_likelihoods"
  by (simp add: second_coordinate_log_likelihood_def four_samples_def four_log_likelihoods_def)

lemma later_weights:
  "calculate_weights_warm_start (1 / 2) four_log_likelihoods [0, 0, 0, 0]
     = Inr [1 / 8, 1 / 8, 3 / 8, 3 / 8]"
  "calculate_weights_warm_start 1 four_log_likelihoods [0, 0, 0, 0]
     = Inr [1 / 20, 1 / 20, 9 / 20, 9 / 20]"
proof -
  have d: "np_subtract four_log_likelihoods [0, 0, 0, 0] = Inr four_log_likelihoods"
    by (simp add: np_subtract_def four_log_likelihoods_def)
  show "calculate_weights_warm_start (1 / 2) four_log_likelihoods [0, 0, 0, 0]
     = Inr [1 / 8, 1 / 8, 3 / 8, 3 / 8]"
    using calculate_weights_warm_start_eq [OF d, of "1 / 2"] by (simp add: four_weights)
  show "calculate_weights_warm_start 1 four_log_likelihoods [0, 0, 0, 0]
     = Inr [1 / 20, 1 / 20, 9 / 20, 9 / 20]"
    using calculate_weights_warm_start_eq [OF d, of 1] by (simp add: four_weights)
qed

lemma later_cov_weights:
  "cov_weights [1 / 8, 1 / 8, 3 / 8, 3 / 8] = 1 / 2"
  "cov_weights [1 / 20, 1 / 20, 9 / 20, 9 / 20] = 4 / 5"
  by (simp_all add: cov_weights_pairs)

lemma warm_start_selects_highest:
  assumes "samples \<noteq> []" and "m = Max (set (map fst samples))"
    and "map_of samples m = Some s" and "map_of log_likelihoods m = Some prev"
    and "map_of betas m = Some b" and "approx s = prev" and "prev \<noteq> []" and "0 < tau"
  shows "calculate_warm_start_stage approx samples betas log_likelihoods tau = Inr m"
proof -
  from assms(1) have "map fst samples \<noteq> []" by simp
  from rev_sort_hd [OF this] assms(2) obtain rest where
    rs: "rev (sort (map fst samples)) = m # rest" by blast
  have "cov_weights (replicate (length prev) (1 / real (length prev))) = 0"
    using assms(7) by (simp add: cov_weights_replicate)
  then show ?thesis
    unfolding calculate_warm_start_stage_def rs
    using assms(3-6,8) by (simp add: warm_start_weights_identity [OF assms(7)])
qed

lemma warm_start_double_selects_highest:
  assumes "samples \<noteq> []" and "m = Max (set (map fst samples))"
    and "map_of samples m = Some s" and "map_of log_likelihoods m = Some prev"
    and "map_of betas m = Some b" and "approx s = prev" and "prev \<noteq> []"
    and "length prev < 2 ^ 53"
    and "cov_weights_double
           (replicate (length prev) (round_to_double (1 / real (length prev)))) < tau"
  shows "calculate_warm_start_stage_double approx samples betas log_likelihoods tau = Inr m"
proof -
  from assms(1) have "map fst samples \<noteq> []" by simp
  from rev_sort_hd [OF this] assms(2) obtain rest where
    rs: "rev (sort (map fst samples)) = m # rest" by blast
  note w = warm_start_weights_double_identity [OF assms(7,8), of b]
  show ?thesis
    unfolding calculate_warm_start_stage_double_def rs
    using assms(3-6,9) by (simp add: w)
qed


lemma seven_cov_below_one: "(3940649673949185 :: real) / 2 ^ 104 < 1"
  by simp



end
